theory Spec2Isabelle
  imports Complex_Main
begin

section \<open>Numbers, points and the pannable container\<close>

text \<open>
  JavaScript numbers are modelled as reals: the model is the exact-arithmetic reading of
  the source, and where real division differs from IEEE division (a zero divisor) the
  theorems carry the hypothesis that excludes it.

  The main container is only ever translated (\<^verbatim>\<open>container.x += deltaX\<close>), never
  scaled or rotated, and it is a direct child of the untransformed stage. Its
  \<^verbatim>\<open>toGlobal\<close> and \<^verbatim>\<open>toLocal\<close> are therefore the translation by the
  container position and its inverse.
\<close>

type_synonym point = "real \<times> real"

definition toGlobal :: "point \<Rightarrow> point \<Rightarrow> point" where
  "toGlobal container p = (fst p + fst container, snd p + snd container)"

definition toLocal :: "point \<Rightarrow> point \<Rightarrow> point" where
  "toLocal container g = (fst g - fst container, snd g - snd container)"

definition Math_hypot :: "real \<Rightarrow> real \<Rightarrow> real" where
  "Math_hypot a b = sqrt (a * a + b * b)"

definition Math_round :: "real \<Rightarrow> real" where
  "Math_round v = of_int \<lfloor>v + 1 / 2\<rfloor>"

definition js_or :: "real \<Rightarrow> real \<Rightarrow> real" where
  "js_or v d = (if v = 0 then d else v)"

record FederatedPointerEvent =
  pointerId :: int
  global :: point

section \<open>The image node: class DraggableResizable\<close>

record Texture =
  tex_width :: real
  tex_height :: real

text \<open>
  \<open>frame_visible\<close> stands for \<^verbatim>\<open>frame.visible\<close> and \<^verbatim>\<open>handle.visible\<close>,
  which the class always sets together; \<open>sprite_scale\<close> is the uniform
  \<^verbatim>\<open>sprite.scale\<close>; \<open>has_parent\<close> says whether \<^verbatim>\<open>this.parent\<close> is set.
\<close>

record DraggableResizable =
  node_id :: string
  node_x :: real
  node_y :: real
  sprite_scale :: real
  texture :: Texture
  frame_visible :: bool
  dragging :: bool
  dragPointerId :: "int option"
  dragOffset :: point
  resizing :: bool
  resizePointerId :: "int option"
  startProj :: real
  startScale :: real
  has_parent :: bool

definition new_DraggableResizable :: "Texture \<Rightarrow> string \<Rightarrow> DraggableResizable" where
  "new_DraggableResizable tex ident =
     (let maxDim = 200;
          s = min 1 (maxDim / max (tex_width tex) (tex_height tex))
      in \<lparr> node_id = ident, node_x = 0, node_y = 0, sprite_scale = s, texture = tex,
           frame_visible = True, dragging = False, dragPointerId = None,
           dragOffset = (0, 0), resizing = False, resizePointerId = None,
           startProj = 0, startScale = s, has_parent = False \<rparr>)"

definition onDragStart :: "FederatedPointerEvent \<Rightarrow> DraggableResizable \<Rightarrow> DraggableResizable" where
  "onDragStart e n =
     n\<lparr> dragging := True, dragPointerId := Some (pointerId e),
        dragOffset := (fst (global e) - node_x n, snd (global e) - node_y n) \<rparr>"

definition onDragMove :: "FederatedPointerEvent \<Rightarrow> DraggableResizable \<Rightarrow> DraggableResizable" where
  "onDragMove e n =
     (if \<not> dragging n \<or> Some (pointerId e) \<noteq> dragPointerId n then n
      else n\<lparr> node_x := fst (global e) - fst (dragOffset n),
              node_y := snd (global e) - snd (dragOffset n) \<rparr>)"

text \<open>\<^verbatim>\<open>onDragEnd\<close> returns the node and the \<^verbatim>\<open>moved\<close> notification it emits, if any.\<close>

definition onDragEnd :: "FederatedPointerEvent \<Rightarrow> DraggableResizable \<Rightarrow> DraggableResizable \<times> point option" where
  "onDragEnd e n =
     (if Some (pointerId e) \<noteq> dragPointerId n then (n, None)
      else (n\<lparr> dragging := False, dragPointerId := None \<rparr>, Some (node_x n, node_y n)))"

definition getScaleConstraints :: "DraggableResizable \<Rightarrow> real \<times> real" where
  "getScaleConstraints n =
     (let minPx = 20;
          minTexDim = min (tex_width (texture n)) (tex_height (texture n));
          minScale = max (5 / 100) (minPx / minTexDim);
          maxScale = 8
      in (minScale, maxScale))"

definition getScale :: "DraggableResizable \<Rightarrow> real" where
  "getScale n = sprite_scale n"

definition setScale :: "real \<Rightarrow> DraggableResizable \<Rightarrow> DraggableResizable" where
  "setScale s n = n\<lparr> sprite_scale := s \<rparr>"

definition showSelection :: "DraggableResizable \<Rightarrow> DraggableResizable" where
  "showSelection n = n\<lparr> frame_visible := True \<rparr>"

definition hideSelection :: "DraggableResizable \<Rightarrow> DraggableResizable" where
  "hideSelection n = n\<lparr> frame_visible := False \<rparr>"

text \<open>
  The resize handlers take the position of the parent container, which
  \<^verbatim>\<open>this.parent.toGlobal\<close> reads.
\<close>

definition onResizeStart :: "point \<Rightarrow> FederatedPointerEvent \<Rightarrow> DraggableResizable \<Rightarrow> DraggableResizable" where
  "onResizeStart container e n =
     (let n1 = n\<lparr> resizing := True, resizePointerId := Some (pointerId e) \<rparr>
      in if \<not> has_parent n1 then n1
         else let globalPoint = global e;
                  thisGlobal = toGlobal container (node_x n1, node_y n1)
              in n1\<lparr> startProj := Math_hypot (fst globalPoint - fst thisGlobal)
                                             (snd globalPoint - snd thisGlobal),
                     startScale := sprite_scale n1 \<rparr>)"

definition onResizeMove :: "point \<Rightarrow> FederatedPointerEvent \<Rightarrow> DraggableResizable \<Rightarrow> DraggableResizable" where
  "onResizeMove container e n =
     (if \<not> resizing n \<or> Some (pointerId e) \<noteq> resizePointerId n \<or> \<not> has_parent n then n
      else let globalPoint = global e;
               thisGlobal = toGlobal container (node_x n, node_y n);
               currentProj = Math_hypot (fst globalPoint - fst thisGlobal)
                                        (snd globalPoint - snd thisGlobal);
               factor = currentProj / startProj n;
               newScale = startScale n * factor;
               (mn, mx) = getScaleConstraints n;
               finalScale = min mx (max mn newScale)
           in n\<lparr> sprite_scale := finalScale \<rparr>)"

text \<open>\<^verbatim>\<open>onResizeEnd\<close> returns the node and the \<^verbatim>\<open>resized\<close> notification, if any.\<close>

definition onResizeEnd :: "FederatedPointerEvent \<Rightarrow> DraggableResizable \<Rightarrow> DraggableResizable \<times> real option" where
  "onResizeEnd e n =
     (if Some (pointerId e) \<noteq> resizePointerId n then (n, None)
      else (n\<lparr> resizing := False, resizePointerId := None \<rparr>, Some (sprite_scale n)))"

text \<open>The distance from the pointer to the node's render centre, in global (screen) space.\<close>

definition pointerDistance :: "point \<Rightarrow> FederatedPointerEvent \<Rightarrow> DraggableResizable \<Rightarrow> real" where
  "pointerDistance container e n =
     Math_hypot (fst (global e) - fst (toGlobal container (node_x n, node_y n)))
                (snd (global e) - snd (toGlobal container (node_x n, node_y n)))"

definition clamp :: "real \<Rightarrow> real \<Rightarrow> real \<Rightarrow> real" where
  "clamp v lo hi = min hi (max lo v)"

section \<open>The text node: class DraggableResizableText\<close>

datatype js_error = TypeError | LoadError

text \<open>
  \<open>t_text\<close> is the field \<^verbatim>\<open>text\<close>: it is assigned in the continuation of the font
  promise, so it is undefined (\<open>None\<close>) from construction until that continuation runs;
  afterwards it holds the \<^verbatim>\<open>PIXI.Text\<close>, of which the model keeps the uniform scale.
  Reading \<^verbatim>\<open>this.text.scale\<close> while it is undefined throws a TypeError.
\<close>

record DraggableResizableText =
  t_id :: string
  t_x :: real
  t_y :: real
  t_text :: "real option"
  t_frame_visible :: bool
  t_dragging :: bool
  t_dragPointerId :: "int option"
  t_dragOffset :: point
  t_resizing :: bool
  t_resizePointerId :: "int option"
  t_startProj :: real
  t_startScale :: real
  t_has_parent :: bool

definition new_DraggableResizableText :: "string \<Rightarrow> DraggableResizableText" where
  "new_DraggableResizableText ident =
     \<lparr> t_id = ident, t_x = 0, t_y = 0, t_text = None, t_frame_visible = True,
       t_dragging = False, t_dragPointerId = None, t_dragOffset = (0, 0),
       t_resizing = False, t_resizePointerId = None, t_startProj = 0, t_startScale = 1,
       t_has_parent = False \<rparr>"

definition redrawFrame_text :: "DraggableResizableText \<Rightarrow> DraggableResizableText" where
  "redrawFrame_text n = (if t_text n = None then n else n\<lparr> t_frame_visible := False \<rparr>)"

text \<open>The continuation of the font promise: the text sprite is created at scale 1.\<close>

definition fontLoaded :: "DraggableResizableText \<Rightarrow> DraggableResizableText" where
  "fontLoaded n = redrawFrame_text (n\<lparr> t_text := Some 1 \<rparr>)"

definition getScale_text :: "DraggableResizableText \<Rightarrow> js_error + real" where
  "getScale_text n = (case t_text n of None \<Rightarrow> Inl TypeError | Some s \<Rightarrow> Inr s)"

definition setScale_text :: "real \<Rightarrow> DraggableResizableText \<Rightarrow> js_error + DraggableResizableText" where
  "setScale_text s n =
     (case t_text n of None \<Rightarrow> Inl TypeError
      | Some _ \<Rightarrow> Inr (redrawFrame_text (n\<lparr> t_text := Some s \<rparr>)))"

definition showSelection_text :: "DraggableResizableText \<Rightarrow> DraggableResizableText" where
  "showSelection_text n = n\<lparr> t_frame_visible := True \<rparr>"

definition hideSelection_text :: "DraggableResizableText \<Rightarrow> DraggableResizableText" where
  "hideSelection_text n = n\<lparr> t_frame_visible := False \<rparr>"

definition onResizeStart_text ::
  "point \<Rightarrow> FederatedPointerEvent \<Rightarrow> DraggableResizableText \<Rightarrow> js_error + DraggableResizableText" where
  "onResizeStart_text container e n =
     (let n1 = n\<lparr> t_resizing := True, t_resizePointerId := Some (pointerId e) \<rparr>
      in if \<not> t_has_parent n1 then Inr n1
         else let localPos = toLocal container (global e);
                  dx = fst localPos - t_x n1;
                  dy = snd localPos - t_y n1
              in case t_text n1 of None \<Rightarrow> Inl TypeError
                 | Some s \<Rightarrow> Inr (n1\<lparr> t_startProj := sqrt (dx * dx + dy * dy),
                                       t_startScale := s \<rparr>))"

definition onResizeMove_text ::
  "point \<Rightarrow> FederatedPointerEvent \<Rightarrow> DraggableResizableText \<Rightarrow> js_error + DraggableResizableText" where
  "onResizeMove_text container e n =
     (if t_resizing n \<and> t_resizePointerId n = Some (pointerId e) then
        (if \<not> t_has_parent n then Inr n
         else let localPos = toLocal container (global e);
                  dx = fst localPos - t_x n;
                  dy = snd localPos - t_y n;
                  currentProj = sqrt (dx * dx + dy * dy);
                  scaleFactor = currentProj / t_startProj n;
                  newScale = max (1 / 10) (min 5 (t_startScale n * scaleFactor))
              in setScale_text newScale n)
      else Inr n)"

text \<open>\<^verbatim>\<open>onResizeEnd\<close> of the text class returns the node and the \<^verbatim>\<open>scaled\<close> notification, if any.\<close>

definition onResizeEnd_text ::
  "FederatedPointerEvent \<Rightarrow> DraggableResizableText \<Rightarrow> js_error + (DraggableResizableText \<times> real option)" where
  "onResizeEnd_text e n =
     (if t_resizing n \<and> t_resizePointerId n = Some (pointerId e) then
        (case getScale_text n of
           Inl err \<Rightarrow> Inl err
         | Inr s \<Rightarrow> Inr (n\<lparr> t_resizing := False, t_resizePointerId := None \<rparr>, Some s))
      else Inr (n, None))"

text \<open>
  \<^verbatim>\<open>this.text.toLocal\<close>: the text sprite sits at the origin of its node with the
  uniform scale of the sprite, so a global point is translated by the container and the
  node positions and divided by that scale.
\<close>

definition text_toLocal :: "point \<Rightarrow> DraggableResizableText \<Rightarrow> point \<Rightarrow> js_error + point" where
  "text_toLocal container n g =
     (case t_text n of
        None \<Rightarrow> Inl TypeError
      | Some s \<Rightarrow> Inr ((fst g - fst container - t_x n) / s, (snd g - snd container - t_y n) / s))"

definition onDragStart_text ::
  "point \<Rightarrow> FederatedPointerEvent \<Rightarrow> DraggableResizableText \<Rightarrow> js_error + DraggableResizableText" where
  "onDragStart_text container e n =
     (let n1 = n\<lparr> t_dragging := True, t_dragPointerId := Some (pointerId e) \<rparr>
      in case text_toLocal container n1 (global e) of
           Inl err \<Rightarrow> Inl err
         | Inr localPos \<Rightarrow> Inr (n1\<lparr> t_dragOffset := (fst localPos, snd localPos) \<rparr>))"

text \<open>\<^verbatim>\<open>onDragEnd\<close> of the text class returns the node and the \<^verbatim>\<open>moved\<close> notification, if any.\<close>

definition onDragEnd_text :: "FederatedPointerEvent \<Rightarrow> DraggableResizableText \<Rightarrow> DraggableResizableText \<times> point option" where
  "onDragEnd_text e n =
     (if t_dragging n \<and> t_dragPointerId n = Some (pointerId e)
      then (n\<lparr> t_dragging := False, t_dragPointerId := None \<rparr>, Some (t_x n, t_y n))
      else (n, None))"

definition onDragMove_text ::
  "point \<Rightarrow> FederatedPointerEvent \<Rightarrow> DraggableResizableText \<Rightarrow> DraggableResizableText" where
  "onDragMove_text container e n =
     (if t_dragging n \<and> t_dragPointerId n = Some (pointerId e) then
        (if \<not> t_has_parent n then n
         else let localPos = toLocal container (global e)
              in n\<lparr> t_x := fst localPos - fst (t_dragOffset n),
                     t_y := snd localPos - snd (t_dragOffset n) \<rparr>)
      else n)"

text \<open>Running the next handler of the text class unless the one before has thrown.\<close>

definition then_text :: "js_error + 'a \<Rightarrow> ('a \<Rightarrow> js_error + 'b) \<Rightarrow> js_error + 'b" where
  "then_text r f = (case r of Inl err \<Rightarrow> Inl err | Inr v \<Rightarrow> f v)"

section \<open>The component state of InfiniteCanvas\<close>

record DraggableImage =
  img_id :: string
  img_node :: nat
  img_x :: real
  img_y :: real
  img_scale :: real
  imageUrl :: string

text \<open>
  \<open>txt_scale\<close> is the property \<^verbatim>\<open>scale\<close> that the \<^verbatim>\<open>scaled\<close> listener adds to
  the entry; it is absent (\<open>None\<close>) until then.
\<close>

record DraggableText =
  txt_id :: string
  txt_node :: nat
  txt_x :: real
  txt_y :: real
  txt_text :: string
  txt_color :: string
  txt_fontFamily :: string
  txt_scale :: "real option"

record StoredImageData =
  s_id :: string
  s_imageUrl :: string
  s_x :: real
  s_y :: real
  s_scale :: real

record StoredTextData =
  st_id :: string
  st_text :: string
  st_x :: real
  st_y :: real
  st_color :: string
  st_fontFamily :: string
  st_scale :: real

text \<open>
  \<open>cd_images\<close> is \<open>None\<close> when the key \<^verbatim>\<open>images\<close> of the parsed JSON is missing or
  not an array; a missing \<^verbatim>\<open>texts\<close> key is the empty list
  (\<^verbatim>\<open>canvasData.texts || []\<close>).
\<close>

record CanvasData =
  cd_images :: "StoredImageData list option"
  cd_texts :: "StoredTextData list"
  canvasPosition :: point

text \<open>
  A function component is re-run on every render, and a callback created in a render
  sees the state values of that render. \<open>render_closure\<close> holds the values of the
  latest committed render: these are what the callbacks reached through the refs
  (\<^verbatim>\<open>selectedImageRef\<close>, \<^verbatim>\<open>saveToAPIRef\<close>, \<^verbatim>\<open>debouncedAutoSaveRef\<close>,
  \<^verbatim>\<open>handleDeleteImageRef\<close>, ...) read. A state setter called inside a handler
  changes the store (\<open>images\<close>, \<open>texts\<close>, \<open>selectedImage\<close>, \<open>selectedText\<close>) and
  becomes visible to callbacks only after the next render (\<open>rerender\<close>), which React
  runs after the handler has returned.

  Pixi nodes are shared by reference between the store, the selection and the container:
  \<open>nodes\<close> and \<open>textNodes\<close> are the heap of live nodes, \<open>next_ref\<close> the next free
  reference. \<open>isPanning\<close> and \<open>lastPointerPosition\<close> are the two variables of the
  pan gesture. \<open>saveDebounceRef\<close> is the pending debounce timer: its deadline and the
  two collection lengths its callback closed over. \<open>clock\<close> is the time in
  milliseconds, and \<open>saveCalls\<close> logs every call of \<^verbatim>\<open>saveToAPI\<close>: when it ran and
  either the body it posted or the error it threw before posting.
\<close>

record render_closure =
  r_images :: "DraggableImage list"
  r_texts :: "DraggableText list"
  r_selectedImage :: "DraggableImage option"
  r_selectedText :: "DraggableText option"

record canvas =
  images :: "DraggableImage list"
  texts :: "DraggableText list"
  selectedImage :: "DraggableImage option"
  selectedText :: "DraggableText option"
  rendered :: render_closure
  nodes :: "nat \<Rightarrow> DraggableResizable option"
  textNodes :: "nat \<Rightarrow> DraggableResizableText option"
  next_ref :: nat
  container :: point
  isPanning :: bool
  lastPointerPosition :: point
  saveDebounceRef :: "(nat \<times> nat \<times> nat) option"
  clock :: nat
  saveCalls :: "(nat \<times> (js_error + CanvasData)) list"

definition initial_canvas :: canvas where
  "initial_canvas =
     \<lparr> images = [], texts = [], selectedImage = None, selectedText = None,
       rendered = \<lparr> r_images = [], r_texts = [], r_selectedImage = None,
                    r_selectedText = None \<rparr>,
       nodes = (\<lambda>_. None), textNodes = (\<lambda>_. None), next_ref = 0, container = (0, 0),
       isPanning = False, lastPointerPosition = (0, 0), saveDebounceRef = None, clock = 0, saveCalls = [] \<rparr>"

definition update_node :: "nat \<Rightarrow> (DraggableResizable \<Rightarrow> DraggableResizable) \<Rightarrow> canvas \<Rightarrow> canvas" where
  "update_node a f st =
     (case nodes st a of None \<Rightarrow> st | Some n \<Rightarrow> st\<lparr> nodes := (nodes st)(a \<mapsto> f n) \<rparr>)"

definition update_textNode ::
  "nat \<Rightarrow> (DraggableResizableText \<Rightarrow> DraggableResizableText) \<Rightarrow> canvas \<Rightarrow> canvas" where
  "update_textNode a f st =
     (case textNodes st a of None \<Rightarrow> st
      | Some n \<Rightarrow> st\<lparr> textNodes := (textNodes st)(a \<mapsto> f n) \<rparr>)"

subsection \<open>Debounced save\<close>

text \<open>
  \<^verbatim>\<open>debouncedAutoSave\<close> is created by \<^verbatim>\<open>useCallback\<close> with the dependencies
  \<^verbatim>\<open>[images.length, texts.length]\<close>: the two lengths are those of the render that
  created it, and the timer callback it arms closes over the same two values.
  Clearing the pending timer and arming a new one replaces \<open>saveDebounceRef\<close>.
\<close>

definition debouncedAutoSave :: "nat \<Rightarrow> nat \<Rightarrow> canvas \<Rightarrow> canvas" where
  "debouncedAutoSave images_length texts_length st =
     (let st1 = (if saveDebounceRef st \<noteq> None then st\<lparr> saveDebounceRef := None \<rparr> else st)
      in st1\<lparr> saveDebounceRef := Some (clock st1 + 2000, images_length, texts_length) \<rparr>)"

definition debouncedAutoSaveRef :: "canvas \<Rightarrow> canvas" where
  "debouncedAutoSaveRef st =
     debouncedAutoSave (length (r_images (rendered st))) (length (r_texts (rendered st))) st"

fun opt_or :: "real option \<Rightarrow> real \<Rightarrow> real" where
  "opt_or None d = d"
| "opt_or (Some v) d = js_or v d"

definition save_image :: "canvas \<Rightarrow> DraggableImage \<Rightarrow> StoredImageData option" where
  "save_image st img =
     (if imageUrl img = [] then None
      else Some \<lparr> s_id = img_id img, s_imageUrl = imageUrl img,
                  s_x = opt_or (map_option node_x (nodes st (img_node img))) 0,
                  s_y = opt_or (map_option node_y (nodes st (img_node img))) 0,
                  s_scale = opt_or (map_option getScale (nodes st (img_node img))) 1 \<rparr>)"

definition save_text :: "canvas \<Rightarrow> DraggableText \<Rightarrow> js_error + StoredTextData" where
  "save_text st t =
     (case (case textNodes st (txt_node t) of None \<Rightarrow> Inr None
            | Some n \<Rightarrow> map_sum id Some (getScale_text n)) of
        Inl e \<Rightarrow> Inl e
      | Inr sc \<Rightarrow> Inr \<lparr> st_id = txt_id t, st_text = txt_text t,
                       st_x = opt_or (map_option t_x (textNodes st (txt_node t))) 0,
                       st_y = opt_or (map_option t_y (textNodes st (txt_node t))) 0,
                       st_color = txt_color t, st_fontFamily = txt_fontFamily t,
                       st_scale = opt_or sc 1 \<rparr>)"

fun save_texts :: "canvas \<Rightarrow> DraggableText list \<Rightarrow> js_error + StoredTextData list" where
  "save_texts st [] = Inr []"
| "save_texts st (t # ts) =
     (case save_text st t of Inl e \<Rightarrow> Inl e
      | Inr d \<Rightarrow> (case save_texts st ts of Inl e \<Rightarrow> Inl e | Inr ds \<Rightarrow> Inr (d # ds)))"

text \<open>The body that \<^verbatim>\<open>saveToAPI\<close> builds from the collections its closure holds.\<close>

definition canvasData_of :: "DraggableImage list \<Rightarrow> DraggableText list \<Rightarrow> canvas \<Rightarrow> js_error + CanvasData" where
  "canvasData_of imgs txts st =
     (let stored = List.map_filter (save_image st) imgs
      in case save_texts st txts of Inl e \<Rightarrow> Inl e
         | Inr ts \<Rightarrow> Inr \<lparr> cd_images = Some stored, cd_texts = ts,
                          canvasPosition = container st \<rparr>)"

definition saveToAPI :: "DraggableImage list \<Rightarrow> DraggableText list \<Rightarrow> canvas \<Rightarrow> canvas" where
  "saveToAPI imgs txts st = st\<lparr> saveCalls := saveCalls st @ [(clock st, canvasData_of imgs txts st)] \<rparr>"

definition saveToAPIRef :: "canvas \<Rightarrow> canvas" where
  "saveToAPIRef st = saveToAPI (r_images (rendered st)) (r_texts (rendered st)) st"

text \<open>The timer callback, with the two lengths it closed over.\<close>

definition autoSaveCallback :: "nat \<Rightarrow> nat \<Rightarrow> canvas \<Rightarrow> canvas" where
  "autoSaveCallback images_length texts_length st =
     (if images_length > 0 \<or> texts_length > 0 then saveToAPIRef st else st)"

text \<open>
  \<open>advance d\<close> lets \<open>d\<close> milliseconds pass with no other event: a pending timer whose
  deadline falls inside the interval runs its callback at the deadline.
\<close>

definition advance :: "nat \<Rightarrow> canvas \<Rightarrow> canvas" where
  "advance d st =
     (case saveDebounceRef st of
        None \<Rightarrow> st\<lparr> clock := clock st + d \<rparr>
      | Some (deadline, ilen, tlen) \<Rightarrow>
          if deadline \<le> clock st + d
          then (autoSaveCallback ilen tlen (st\<lparr> clock := max (clock st) deadline, saveDebounceRef := None \<rparr>))
                 \<lparr> clock := clock st + d \<rparr>
          else st\<lparr> clock := clock st + d \<rparr>)"

text \<open>
  A render commits the store to the closures; the effect with the dependency
  \<^verbatim>\<open>[images.length]\<close> then schedules a save when that length has changed and is positive.
\<close>

definition rerender :: "canvas \<Rightarrow> canvas" where
  "rerender st =
     (let st1 = st\<lparr> rendered := \<lparr> r_images = images st, r_texts = texts st,
                                   r_selectedImage = selectedImage st,
                                   r_selectedText = selectedText st \<rparr> \<rparr>
      in if length (images st) \<noteq> length (r_images (rendered st)) \<and> length (images st) > 0
         then debouncedAutoSave (length (images st)) (length (texts st)) st1
         else st1)"

subsection \<open>Listeners and handlers\<close>

text \<open>The listeners that every image creation path attaches for \<^verbatim>\<open>resized\<close> and \<^verbatim>\<open>moved\<close>.\<close>

definition resizedListener :: "string \<Rightarrow> real \<Rightarrow> canvas \<Rightarrow> canvas" where
  "resizedListener ident scale st =
     debouncedAutoSaveRef
       (st\<lparr> images := map (\<lambda>img. if img_id img = ident then img\<lparr> img_scale := scale \<rparr> else img)
                          (images st),
            selectedImage := map_option (\<lambda>si. if img_id si = ident then si\<lparr> img_scale := scale \<rparr> else si)
                               (selectedImage st) \<rparr>)"

definition movedListener :: "string \<Rightarrow> point \<Rightarrow> canvas \<Rightarrow> canvas" where
  "movedListener ident p st =
     debouncedAutoSaveRef
       (st\<lparr> images := map (\<lambda>img. if img_id img = ident then img\<lparr> img_x := fst p, img_y := snd p \<rparr> else img)
                          (images st),
            selectedImage := map_option (\<lambda>si. if img_id si = ident then si\<lparr> img_x := fst p, img_y := snd p \<rparr> else si)
                               (selectedImage st) \<rparr>)"

record WheelEvent =
  deltaY :: real
  ctrlKey :: bool

definition handleWheel :: "WheelEvent \<Rightarrow> canvas \<Rightarrow> canvas" where
  "handleWheel e st =
     (case r_selectedImage (rendered st) of
        None \<Rightarrow> st
      | Some selected \<Rightarrow>
          (case nodes st (img_node selected) of
             None \<Rightarrow> st
           | Some n \<Rightarrow>
               let base = 10015 / 10000;
                   factor = (if ctrlKey e then base powr (- deltaY e * 2) else base powr (- deltaY e));
                   current = getScale n;
                   (mn, mx) = getScaleConstraints n;
                   clamped = max mn (min mx (current * factor));
                   st1 = update_node (img_node selected) (setScale clamped) st
               in debouncedAutoSaveRef
                    (st1\<lparr> images := map (\<lambda>img. if img_id img = img_id selected
                                               then img\<lparr> img_scale := clamped \<rparr> else img) (images st1),
                          selectedImage := map_option (\<lambda>si. if img_id si = img_id selected
                                               then si\<lparr> img_scale := clamped \<rparr> else si)
                                             (selectedImage st1) \<rparr>)))"

text \<open>
  The container's pointer handlers, for a pointer-down whose target is the container
  itself while the text tool is not active (typing mode is not modelled).
\<close>

definition containerPointerDown :: "FederatedPointerEvent \<Rightarrow> canvas \<Rightarrow> canvas" where
  "containerPointerDown e st =
     (let st1 = st\<lparr> lastPointerPosition := global e, isPanning := True \<rparr>;
          st2 = (case r_selectedImage (rendered st1) of None \<Rightarrow> st1
                 | Some si \<Rightarrow> update_node (img_node si) hideSelection st1)
      in st2\<lparr> selectedImage := None, selectedText := None \<rparr>)"

definition containerPointerMove :: "FederatedPointerEvent \<Rightarrow> canvas \<Rightarrow> canvas" where
  "containerPointerMove e st =
     (if isPanning st then
        (let deltaX = fst (global e) - fst (lastPointerPosition st);
             deltaY = snd (global e) - snd (lastPointerPosition st)
         in debouncedAutoSaveRef
              (st\<lparr> container := (fst (container st) + deltaX, snd (container st) + deltaY),
                   lastPointerPosition := global e \<rparr>))
      else st)"

definition containerPointerUp :: "canvas \<Rightarrow> canvas" where
  "containerPointerUp st = st\<lparr> isPanning := False \<rparr>"

definition handleDeleteImage :: "string \<Rightarrow> canvas \<Rightarrow> canvas" where
  "handleDeleteImage imageId st =
     (let imageToDelete = find (\<lambda>img. img_id img = imageId) (r_images (rendered st));
          st1 = (case imageToDelete of None \<Rightarrow> st
                 | Some img \<Rightarrow> st\<lparr> nodes := (nodes st)(img_node img := None) \<rparr>);
          st2 = st1\<lparr> images := filter (\<lambda>img. img_id img \<noteq> imageId) (images st1) \<rparr>;
          st3 = (if map_option img_id (r_selectedImage (rendered st)) = Some imageId
                 then st2\<lparr> selectedImage := None \<rparr> else st2)
      in debouncedAutoSaveRef st3)"

definition handleDeleteText :: "string \<Rightarrow> canvas \<Rightarrow> canvas" where
  "handleDeleteText textId st =
     (let textToDelete = find (\<lambda>t. txt_id t = textId) (r_texts (rendered st));
          st1 = (case textToDelete of None \<Rightarrow> st
                 | Some t \<Rightarrow> st\<lparr> textNodes := (textNodes st)(txt_node t := None) \<rparr>);
          st2 = st1\<lparr> texts := filter (\<lambda>t. txt_id t \<noteq> textId) (texts st1) \<rparr>;
          st3 = (if map_option txt_id (r_selectedText (rendered st)) = Some textId
                 then st2\<lparr> selectedText := None \<rparr> else st2)
      in debouncedAutoSaveRef st3)"

subsection \<open>Creating objects and selecting them\<close>

text \<open>
  \<open>ident\<close> is \<^verbatim>\<open>Date.now().toString()\<close>. The click handler of an image is the body of
  its single-click timeout; \<open>cap\<close> is the \<^verbatim>\<open>selectedImage\<close> its closure captured when
  the image was created.
\<close>

definition createSpriteFromTexture :: "Texture \<Rightarrow> real \<Rightarrow> real \<Rightarrow> string \<Rightarrow> string \<Rightarrow> canvas \<Rightarrow> canvas" where
  "createSpriteFromTexture tex px py url ident st =
     (let node = hideSelection ((new_DraggableResizable tex ident)
                   \<lparr> node_x := Math_round px, node_y := Math_round py \<rparr>);
          node1 = node\<lparr> has_parent := True \<rparr>;
          a = next_ref st;
          newImage = \<lparr> img_id = ident, img_node = a, img_x = node_x node1, img_y = node_y node1,
                       img_scale = getScale node1, imageUrl = url \<rparr>
      in st\<lparr> nodes := (nodes st)(a \<mapsto> node1), next_ref := a + 1,
             images := images st @ [newImage] \<rparr>)"

definition imageClick :: "DraggableImage option \<Rightarrow> string \<Rightarrow> nat \<Rightarrow> string \<Rightarrow> canvas \<Rightarrow> canvas" where
  "imageClick cap ident a url st =
     (let st1 = (case cap of None \<Rightarrow> st
                 | Some si \<Rightarrow> if img_id si \<noteq> ident then update_node (img_node si) hideSelection st
                             else st);
          st2 = update_node a showSelection st1
      in case nodes st2 a of None \<Rightarrow> st2
         | Some node \<Rightarrow>
             st2\<lparr> selectedImage := Some \<lparr> img_id = ident, img_node = a, img_x = node_x node,
                                         img_y = node_y node, img_scale = getScale node,
                                         imageUrl = url \<rparr> \<rparr>)"

text \<open>
  \<^verbatim>\<open>createTextElement\<close> with the colour and font of the editor state; \<open>textReady\<close> is
  the moment the font promise of the node at \<open>a\<close> resolves; \<open>textClick\<close> is the click
  handler attached then, with the \<^verbatim>\<open>selectedImage\<close> and \<^verbatim>\<open>selectedText\<close> that
  the closure of \<^verbatim>\<open>createTextElement\<close> captured.
\<close>

definition createTextElement :: "string \<Rightarrow> string \<Rightarrow> string \<Rightarrow> real \<Rightarrow> real \<Rightarrow> string \<Rightarrow> canvas \<Rightarrow> canvas" where
  "createTextElement color fontFamily content px py textId st =
     (let textNode = (new_DraggableResizableText textId)\<lparr> t_x := px, t_y := py, t_has_parent := True \<rparr>;
          a = next_ref st;
          newText = \<lparr> txt_id = textId, txt_node = a, txt_x = t_x textNode, txt_y = t_y textNode,
                      txt_text = content, txt_color = color, txt_fontFamily = fontFamily,
                      txt_scale = None \<rparr>
      in debouncedAutoSaveRef
           (st\<lparr> textNodes := (textNodes st)(a \<mapsto> textNode), next_ref := a + 1,
                texts := texts st @ [newText] \<rparr>))"

definition textReady :: "nat \<Rightarrow> canvas \<Rightarrow> canvas" where
  "textReady a st = update_textNode a fontLoaded st"

definition textClick ::
  "DraggableImage option \<Rightarrow> DraggableText option \<Rightarrow> DraggableText \<Rightarrow> canvas \<Rightarrow> canvas" where
  "textClick capImage capText entry st =
     (let st1 = (case capImage of None \<Rightarrow> st
                 | Some si \<Rightarrow> (update_node (img_node si) hideSelection st)\<lparr> selectedImage := None \<rparr>);
          st2 = (case capText of None \<Rightarrow> st1
                 | Some t \<Rightarrow> (update_textNode (txt_node t) hideSelection_text st1)\<lparr> selectedText := None \<rparr>);
          st3 = update_textNode (txt_node entry) showSelection_text st2
      in case textNodes st3 (txt_node entry) of None \<Rightarrow> st3
         | Some textNode \<Rightarrow>
             st3\<lparr> selectedText := Some (entry\<lparr> txt_x := t_x textNode, txt_y := t_y textNode \<rparr>) \<rparr>)"

subsection \<open>Loading a document\<close>

text \<open>
  Resolving an image reference is the work of Pixi and the network. Its outcome is a
  parameter of the loaders: the texture, a null texture, or a failure (an exception of
  \<^verbatim>\<open>Texture.from\<close>, the five-second timeout, a rejected \<^verbatim>\<open>Assets.load\<close>).
\<close>

datatype texture_result = Resolved Texture | NoTexture | Rejected

definition materialize :: "Texture \<Rightarrow> StoredImageData \<Rightarrow> DraggableResizable" where
  "materialize tex storedImage =
     (let node = new_DraggableResizable tex (s_id storedImage);
          node1 = node\<lparr> node_x := Math_round (s_x storedImage), node_y := Math_round (s_y storedImage) \<rparr>;
          node2 = hideSelection (setScale (s_scale storedImage) node1)
      in node2\<lparr> has_parent := True \<rparr>)"

text \<open>
  The body of one iteration of each image loop: \<open>Inl\<close> is an exception that reaches the
  \<^verbatim>\<open>catch\<close> of the iteration, \<open>Inr None\<close> is \<^verbatim>\<open>continue\<close>.
\<close>

definition loadCanvasData_image ::
  "(string \<Rightarrow> texture_result) \<Rightarrow> StoredImageData \<Rightarrow> js_error + DraggableResizable option" where
  "loadCanvasData_image Texture_from storedImage =
     (if s_imageUrl storedImage = [] then Inr None
      else case Texture_from (s_imageUrl storedImage) of
             NoTexture \<Rightarrow> Inr None
           | Rejected \<Rightarrow> Inl LoadError
           | Resolved tex \<Rightarrow> Inr (Some (materialize tex storedImage)))"

definition loadFromAPI_image ::
  "(string \<Rightarrow> texture_result) \<Rightarrow> StoredImageData \<Rightarrow> js_error + DraggableResizable option" where
  "loadFromAPI_image Assets_load storedImage =
     (if s_imageUrl storedImage = [] then Inr None
      else let tex_opt = (case Assets_load (s_imageUrl storedImage) of
                            Resolved tex \<Rightarrow> Some tex | NoTexture \<Rightarrow> None | Rejected \<Rightarrow> None)
           in case tex_opt of None \<Rightarrow> Inr None
              | Some tex \<Rightarrow> Inr (Some (materialize tex storedImage)))"

fun load_images ::
  "(StoredImageData \<Rightarrow> js_error + DraggableResizable option) \<Rightarrow> StoredImageData list \<Rightarrow>
     canvas \<Rightarrow> DraggableImage list \<Rightarrow> canvas \<times> DraggableImage list" where
  "load_images body [] st loadedImages = (st, loadedImages)"
| "load_images body (storedImage # rest) st loadedImages =
     (case body storedImage of
        Inl e \<Rightarrow> load_images body rest st loadedImages
      | Inr None \<Rightarrow> load_images body rest st loadedImages
      | Inr (Some node) \<Rightarrow>
          (let a = next_ref st;
               st1 = st\<lparr> nodes := (nodes st)(a \<mapsto> node), next_ref := a + 1 \<rparr>;
               newImage = \<lparr> img_id = s_id storedImage, img_node = a, img_x = node_x node,
                            img_y = node_y node, img_scale = getScale node,
                            imageUrl = s_imageUrl storedImage \<rparr>
           in load_images body rest st1 (loadedImages @ [newImage])))"

definition loadCanvasData_text :: "StoredTextData \<Rightarrow> js_error + DraggableResizableText option" where
  "loadCanvasData_text storedText =
     (if st_text storedText = [] then Inr None
      else let textNode = (new_DraggableResizableText (st_id storedText))
                            \<lparr> t_x := st_x storedText, t_y := st_y storedText \<rparr>
           in case (if st_scale storedText \<noteq> 0 then setScale_text (st_scale storedText) textNode
                    else Inr textNode) of
                Inl e \<Rightarrow> Inl e
              | Inr n \<Rightarrow> Inr (Some (n\<lparr> t_has_parent := True \<rparr>)))"

fun load_texts :: "StoredTextData list \<Rightarrow> canvas \<Rightarrow> DraggableText list \<Rightarrow> canvas \<times> DraggableText list" where
  "load_texts [] st loadedTexts = (st, loadedTexts)"
| "load_texts (storedText # rest) st loadedTexts =
     (case loadCanvasData_text storedText of
        Inl e \<Rightarrow> load_texts rest st loadedTexts
      | Inr None \<Rightarrow> load_texts rest st loadedTexts
      | Inr (Some textNode) \<Rightarrow>
          (let a = next_ref st;
               st1 = st\<lparr> textNodes := (textNodes st)(a \<mapsto> textNode), next_ref := a + 1 \<rparr>;
               newText = \<lparr> txt_id = st_id storedText, txt_node = a, txt_x = t_x textNode,
                           txt_y = t_y textNode, txt_text = st_text storedText,
                           txt_color = st_color storedText,
                           txt_fontFamily = st_fontFamily storedText, txt_scale = None \<rparr>
           in load_texts rest st1 (loadedTexts @ [newText])))"

definition destroy_all :: "nat list \<Rightarrow> (nat \<Rightarrow> 'a option) \<Rightarrow> (nat \<Rightarrow> 'a option)" where
  "destroy_all refs heap = foldl (\<lambda>h a. h(a := None)) heap refs"

text \<open>
  \<^verbatim>\<open>loadCanvasData\<close> returns the state it leaves and the exception it throws to its
  caller, if any: iterating a missing \<^verbatim>\<open>images\<close> is a TypeError, thrown after the
  live objects have been cleared.
\<close>

definition loadCanvasData :: "(string \<Rightarrow> texture_result) \<Rightarrow> CanvasData \<Rightarrow> canvas \<Rightarrow> canvas \<times> js_error option" where
  "loadCanvasData Texture_from canvasData st =
     (let st1 = st\<lparr> nodes := destroy_all (map img_node (r_images (rendered st))) (nodes st),
                    images := [], selectedImage := None \<rparr>;
          st2 = st1\<lparr> textNodes := destroy_all (map txt_node (r_texts (rendered st))) (textNodes st1),
                     texts := [], selectedText := None \<rparr>;
          st3 = st2\<lparr> container := canvasPosition canvasData \<rparr>
      in case cd_images canvasData of
           None \<Rightarrow> (st3, Some TypeError)
         | Some stored \<Rightarrow>
             (let (st4, loadedImages) = load_images (loadCanvasData_image Texture_from) stored st3 [];
                  st5 = st4\<lparr> images := loadedImages \<rparr>;
                  (st6, loadedTexts) = load_texts (cd_texts canvasData) st5 []
              in (st6\<lparr> texts := loadedTexts \<rparr>, None)))"

datatype file_content = NoFile | Unparsable | Parsed CanvasData

text \<open>\<^verbatim>\<open>importFromJSON\<close> returns the state and whether the alert was shown.\<close>

definition importFromJSON :: "(string \<Rightarrow> texture_result) \<Rightarrow> file_content \<Rightarrow> canvas \<Rightarrow> canvas \<times> bool" where
  "importFromJSON Texture_from file st =
     (case file of
        NoFile \<Rightarrow> (st, False)
      | Unparsable \<Rightarrow> (st, True)
      | Parsed jsonData \<Rightarrow>
          (case loadCanvasData Texture_from jsonData st of
             (st1, None) \<Rightarrow> (st1, False)
           | (st1, Some e) \<Rightarrow> (st1, True)))"

datatype api_response = FetchFailed | Json CanvasData

text \<open>
  \<^verbatim>\<open>loadFromAPI\<close> is memoised on \<^verbatim>\<open>[containerRef]\<close>, so \<open>cap_images\<close>, the
  \<^verbatim>\<open>images\<close> of its closure, is that of the first render. Every exception is caught
  inside; the function returns the state only.
\<close>

definition loadFromAPI :: "DraggableImage list \<Rightarrow> (string \<Rightarrow> texture_result) \<Rightarrow> api_response \<Rightarrow> canvas \<Rightarrow> canvas" where
  "loadFromAPI cap_images Assets_load response st =
     (case response of
        FetchFailed \<Rightarrow> st
      | Json canvasData \<Rightarrow>
          (case cd_images canvasData of
             None \<Rightarrow> st
           | Some stored \<Rightarrow>
               (let st1 = st\<lparr> nodes := destroy_all (map img_node cap_images) (nodes st),
                              images := [], selectedImage := None \<rparr>;
                    st2 = st1\<lparr> container := canvasPosition canvasData \<rparr>;
                    (st3, loadedImages) = load_images (loadFromAPI_image Assets_load) stored st2 []
                in st3\<lparr> images := loadedImages \<rparr>)))"

subsection \<open>Gestures and example objects\<close>

text \<open>A drag gesture after the grab: the pointer-moves \<open>es\<close> delivered to the node in order.\<close>

definition dragMoves :: "FederatedPointerEvent list \<Rightarrow> DraggableResizable \<Rightarrow> DraggableResizable" where
  "dragMoves es n = foldl (\<lambda>m e. onDragMove e m) n es"

definition pointer :: "int \<Rightarrow> real \<Rightarrow> real \<Rightarrow> FederatedPointerEvent" where
  "pointer i px py = \<lparr> pointerId = i, global = (px, py) \<rparr>"

text \<open>An image node for a 100 by 100 texture, placed at world position (100, 100).\<close>

definition example_node :: DraggableResizable where
  "example_node =
     (hideSelection ((new_DraggableResizable \<lparr> tex_width = 100, tex_height = 100 \<rparr> ''1'')
        \<lparr> node_x := 100, node_y := 100 \<rparr>))\<lparr> has_parent := True \<rparr>"

text \<open>
  The texture of a live node has positive dimensions (the loaders wait for them); there
  the real quotient in \<^verbatim>\<open>getScaleConstraints\<close> is the floating-point one.
\<close>

definition positive_texture :: "DraggableResizable \<Rightarrow> bool" where
  "positive_texture n = (0 < tex_width (texture n) \<and> 0 < tex_height (texture n))"

text \<open>The scale invariant of an image node, and the scale a wheel event gives it.\<close>

definition scale_in_bounds :: "DraggableResizable \<Rightarrow> bool" where
  "scale_in_bounds n =
     (fst (getScaleConstraints n) \<le> sprite_scale n \<and> sprite_scale n \<le> snd (getScaleConstraints n))"

definition wheelScale :: "WheelEvent \<Rightarrow> DraggableResizable \<Rightarrow> real" where
  "wheelScale e n =
     max (fst (getScaleConstraints n))
       (min (snd (getScaleConstraints n))
          (sprite_scale n * (10015 / 10000) powr (- ((if ctrlKey e then 2 else 1) * deltaY e))))"

text \<open>
  Example states, each reached from the initial state by the handlers: a canvas with one
  image, the same with the image selected, a canvas with one text object whose font has
  loaded, and the same with the text selected.
\<close>

definition example_texture :: Texture where
  "example_texture = \<lparr> tex_width = 100, tex_height = 100 \<rparr>"

definition image_canvas :: canvas where
  "image_canvas = rerender (createSpriteFromTexture example_texture 100 100 ''a.png'' ''1'' initial_canvas)"

definition selected_image_canvas :: canvas where
  "selected_image_canvas = rerender (imageClick None ''1'' 0 ''a.png'' image_canvas)"

definition example_text :: DraggableText where
  "example_text = \<lparr> txt_id = ''2'', txt_node = 0, txt_x = 10, txt_y = 20, txt_text = ''Hi'',
                     txt_color = ''#000000'', txt_fontFamily = ''Arial'', txt_scale = None \<rparr>"

definition text_canvas :: canvas where
  "text_canvas = textReady 0 (rerender (createTextElement ''#000000'' ''Arial'' ''Hi'' 10 20 ''2'' initial_canvas))"

definition selected_text_canvas :: canvas where
  "selected_text_canvas = rerender (textClick None None example_text text_canvas)"

text \<open>A text node in the middle of a resize gesture, and a texture larger than 200 pixels.\<close>

definition resizing_text :: DraggableResizableText where
  "resizing_text =
     \<lparr> t_id = ''2'', t_x = 10, t_y = 20, t_text = Some 1, t_frame_visible = True,
       t_dragging = False, t_dragPointerId = None, t_dragOffset = (0, 0),
       t_resizing = True, t_resizePointerId = Some 1, t_startProj = 50, t_startScale = 1,
       t_has_parent = True \<rparr>"

definition large_texture :: Texture where
  "large_texture = \<lparr> tex_width = 8000, tex_height = 4000 \<rparr>"

text \<open>
  A document edit is any state change that leaves the debounce timer, the clock and the
  log of save calls alone. \<open>burst steps st\<close> is a burst of save triggers: a first
  trigger and, for each step, a wait, a document edit and a further trigger.
\<close>

definition document_edit :: "(canvas \<Rightarrow> canvas) \<Rightarrow> bool" where
  "document_edit f =
     (\<forall>st. saveDebounceRef (f st) = saveDebounceRef st \<and> clock (f st) = clock st
           \<and> saveCalls (f st) = saveCalls st)"

fun burst :: "(nat \<times> (canvas \<Rightarrow> canvas)) list \<Rightarrow> canvas \<Rightarrow> canvas" where
  "burst [] st = debouncedAutoSaveRef st"
| "burst ((gap, edit) # rest) st = burst rest (edit (advance gap (debouncedAutoSaveRef st)))"

definition panTo :: "real \<Rightarrow> real \<Rightarrow> canvas \<Rightarrow> canvas" where
  "panTo px py st = st\<lparr> container := (px, py) \<rparr>"

text \<open>
  Panning on the empty canvas; and the canvas with one image, saved once, after the image
  has been selected and deleted and the component has rendered again.
\<close>

definition panned_empty_canvas :: canvas where
  "panned_empty_canvas =
     containerPointerMove (pointer 1 30 40) (containerPointerDown (pointer 1 10 10) initial_canvas)"

definition deleted_last_canvas :: canvas where
  "deleted_last_canvas =
     rerender (handleDeleteImage ''1''
       (rerender (imageClick None ''1'' 0 ''a.png'' (advance 5000 image_canvas))))"

text \<open>
  An entry can be materialised when its reference is non-empty and resolves to a texture.
  \<open>image_view\<close> is what a live image looks like from outside: its identifier, its
  reference and the position and scale of its node; \<open>reloaded\<close> is the view of an image
  after a save and a load.
\<close>

definition resolves :: "(string \<Rightarrow> texture_result) \<Rightarrow> string \<Rightarrow> bool" where
  "resolves R url = (case R url of Resolved tex \<Rightarrow> True | NoTexture \<Rightarrow> False | Rejected \<Rightarrow> False)"

definition resolvable :: "(string \<Rightarrow> texture_result) \<Rightarrow> StoredImageData \<Rightarrow> bool" where
  "resolvable R storedImage = (s_imageUrl storedImage \<noteq> [] \<and> resolves R (s_imageUrl storedImage))"

definition image_view :: "canvas \<Rightarrow> DraggableImage \<Rightarrow> string \<times> string \<times> (real \<times> real \<times> real) option" where
  "image_view st img =
     (img_id img, imageUrl img,
      map_option (\<lambda>n. (node_x n, node_y n, sprite_scale n)) (nodes st (img_node img)))"

definition stored_view :: "StoredImageData \<Rightarrow> string \<times> string \<times> (real \<times> real \<times> real) option" where
  "stored_view s =
     (s_id s, s_imageUrl s, Some (Math_round (s_x s), Math_round (s_y s), s_scale s))"

definition reloaded :: "string \<times> string \<times> (real \<times> real \<times> real) option \<Rightarrow> string \<times> string \<times> (real \<times> real \<times> real) option" where
  "reloaded v =
     (case v of (ident, url, geometry) \<Rightarrow>
        (ident, url, map_option (\<lambda>(px, py, s). (Math_round px, Math_round py, js_or s 1)) geometry))"

text \<open>
  Examples: a resolver that fails on one reference, a stored document of three images of
  which the second has that reference, the canvas with one image after the image has
  been dragged by 0.4 pixels, a stored document with one text entry of scale 0, and the
  canvas with one text object and one image, the text selected.
\<close>

definition example_resolver :: "string \<Rightarrow> texture_result" where
  "example_resolver url = (if url = ''bad.png'' then Rejected else Resolved example_texture)"

definition three_image_document :: CanvasData where
  "three_image_document =
     \<lparr> cd_images = Some
         [\<lparr> s_id = ''a'', s_imageUrl = ''a.png'', s_x = 10, s_y = 20, s_scale = 1 \<rparr>,
          \<lparr> s_id = ''b'', s_imageUrl = ''bad.png'', s_x = 0, s_y = 0, s_scale = 1 \<rparr>,
          \<lparr> s_id = ''c'', s_imageUrl = ''c.png'', s_x = 30, s_y = 40, s_scale = 2 \<rparr>],
       cd_texts = [], canvasPosition = (5, 6) \<rparr>"

definition dragged_canvas :: canvas where
  "dragged_canvas =
     rerender (movedListener ''1'' (1004 / 10, 100)
       (update_node 0
          (\<lambda>n. fst (onDragEnd (pointer 1 (1504 / 10) 160)
                     (onDragMove (pointer 1 (1504 / 10) 160) (onDragStart (pointer 1 150 160) n))))
          image_canvas))"

definition one_image_document :: CanvasData where
  "one_image_document =
     \<lparr> cd_images = Some [\<lparr> s_id = ''1'', s_imageUrl = ''a.png'', s_x = 100, s_y = 100, s_scale = 1 \<rparr>],
       cd_texts = [], canvasPosition = (0, 0) \<rparr>"

definition dragged_document :: CanvasData where
  "dragged_document =
     \<lparr> cd_images = Some [\<lparr> s_id = ''1'', s_imageUrl = ''a.png'', s_x = 1004 / 10, s_y = 100, s_scale = 1 \<rparr>],
       cd_texts = [], canvasPosition = (0, 0) \<rparr>"

definition empty_document :: CanvasData where
  "empty_document = \<lparr> cd_images = Some [], cd_texts = [], canvasPosition = (0, 0) \<rparr>"

definition text_document :: CanvasData where
  "text_document =
     \<lparr> cd_images = Some [],
       cd_texts = [\<lparr> st_id = ''t1'', st_text = ''Hi'', st_x = 10, st_y = 20, st_color = ''#000000'',
                     st_fontFamily = ''Arial'', st_scale = 0 \<rparr>],
       canvasPosition = (0, 0) \<rparr>"

definition text_selected_beside_image :: canvas where
  "text_selected_beside_image =
     rerender (textClick None None example_text
       (rerender (createSpriteFromTexture example_texture 100 100 ''a.png'' ''1'' text_canvas)))"

definition both_selected_canvas :: canvas where
  "both_selected_canvas = rerender (imageClick None ''1'' 1 ''a.png'' text_selected_beside_image)"

text \<open>The number of objects that the selection references mark as selected.\<close>

definition selected_count :: "canvas \<Rightarrow> nat" where
  "selected_count st =
     length (filter (\<lambda>img. map_option img_id (selectedImage st) = Some (img_id img)) (images st))
     + length (filter (\<lambda>t. map_option txt_id (selectedText st) = Some (txt_id t)) (texts st))"

text \<open>A loop body is faithful to \<open>R\<close> when it materialises exactly the resolvable entries.\<close>

definition materialises :: "(string \<Rightarrow> texture_result) \<Rightarrow> (StoredImageData \<Rightarrow> js_error + DraggableResizable option) \<Rightarrow> bool" where
  "materialises R body =
     (\<forall>s. (resolvable R s \<longrightarrow> (\<exists>tex. body s = Inr (Some (materialize tex s))))
        \<and> (\<not> resolvable R s \<longrightarrow> body s = Inr None \<or> (\<exists>e. body s = Inl e)))"

text \<open>A resize gesture after the handle is pressed: the pointer-moves \<open>es\<close> in order.\<close>

definition resizeMoves :: "point \<Rightarrow> FederatedPointerEvent list \<Rightarrow> DraggableResizable \<Rightarrow> DraggableResizable" where
  "resizeMoves c es n = foldl (\<lambda>m e. onResizeMove c e m) n es"

text \<open>
  A resize gesture on a text node after the handle is pressed, and the distance from the
  pointer to the centre of a text node in global space.
\<close>

definition resizeMoves_text ::
  "point \<Rightarrow> FederatedPointerEvent list \<Rightarrow> js_error + DraggableResizableText \<Rightarrow> js_error + DraggableResizableText" where
  "resizeMoves_text c es r = foldl (\<lambda>acc e. then_text acc (onResizeMove_text c e)) r es"

definition pointerDistance_text :: "point \<Rightarrow> FederatedPointerEvent \<Rightarrow> DraggableResizableText \<Rightarrow> real" where
  "pointerDistance_text c e n =
     Math_hypot (fst (global e) - fst (toGlobal c (t_x n, t_y n)))
                (snd (global e) - snd (toGlobal c (t_x n, t_y n)))"

text \<open>
  A text node at world position (100, 100) whose font has loaded; the same after a resize
  gesture from distance 50 to distance 100 has ended, at scale 2.
\<close>

definition example_text_node :: DraggableResizableText where
  "example_text_node =
     fontLoaded ((new_DraggableResizableText ''2'')\<lparr> t_x := 100, t_y := 100, t_has_parent := True \<rparr>)"

definition scaled_text_node :: DraggableResizableText where
  "scaled_text_node = example_text_node\<lparr> t_text := Some 2, t_startProj := 50, t_startScale := 1 \<rparr>"

section \<open>Properties of the node classes\<close>

lemma Math_hypot_3_4: "Math_hypot (3 * k) (4 * k) = 5 * \<bar>k\<bar>"
proof -
  have "(3 * k) * (3 * k) + (4 * k) * (4 * k) = (5 * \<bar>k\<bar>)\<^sup>2"
    by (simp add: power2_eq_square algebra_simps)
  then show ?thesis
    unfolding Math_hypot_def by (simp only: real_sqrt_abs abs_mult abs_abs abs_numeral)
qed

lemma pointer_simps: "pointerId (pointer i px py) = i" "global (pointer i px py) = (px, py)"
  by (simp_all add: pointer_def)

lemma example_node_simps:
  "has_parent example_node" "sprite_scale example_node = 1"
  "node_x example_node = 100" "node_y example_node = 100"
  "getScaleConstraints example_node = (1 / 5, 8)"
  "positive_texture example_node"
  by (simp_all add: example_node_def new_DraggableResizable_def hideSelection_def
      getScaleConstraints_def positive_texture_def Let_def)

lemma example_distances:
  "pointerDistance (7, 9) (pointer 1 137 149) example_node = 50"
  "pointerDistance (7, 9) (pointer 1 167 189) example_node = 100"
  using Math_hypot_3_4 [of 10] Math_hypot_3_4 [of 20]
  by (simp_all add: pointerDistance_def pointer_simps toGlobal_def example_node_simps)

lemma dragMoves_matching:
  assumes "dragging m" and "dragPointerId m = Some i" and "\<forall>e \<in> set es. pointerId e = i"
  shows "dragging (dragMoves es m) \<and> dragPointerId (dragMoves es m) = Some i
         \<and> dragOffset (dragMoves es m) = dragOffset m
         \<and> (es \<noteq> [] \<longrightarrow> node_x (dragMoves es m) = fst (global (last es)) - fst (dragOffset m)
                        \<and> node_y (dragMoves es m) = snd (global (last es)) - snd (dragOffset m))"
  using assms
proof (induction es arbitrary: m rule: rev_induct)
  case Nil
  then show ?case by (simp add: dragMoves_def)
next
  case (snoc e es)
  then show ?case by (simp add: dragMoves_def onDragMove_def)
qed

lemma dragMoves_filter:
  assumes "dragging m" and "dragPointerId m = Some i"
  shows "dragMoves es m = dragMoves (filter (\<lambda>e. pointerId e = i) es) m"
  using assms
proof (induction es arbitrary: m)
  case Nil
  then show ?case by simp
next
  case (Cons e es)
  have step: "dragMoves (x # xs) k = dragMoves xs (onDragMove x k)" for x xs k
    by (simp add: dragMoves_def)
  show ?case
  proof (cases "pointerId e = i")
    case True
    have "dragging (onDragMove e m)" "dragPointerId (onDragMove e m) = Some i"
      using Cons.prems by (simp_all add: onDragMove_def)
    then show ?thesis
      using Cons.IH [of "onDragMove e m"] True by (simp add: step)
  next
    case False
    then have "onDragMove e m = m"
      using Cons.prems by (simp add: onDragMove_def)
    then show ?thesis
      using Cons.IH [OF Cons.prems] False by (simp add: step)
  qed
qed

text \<open>
  The drag gesture of the image class: the offset is captured once, at the grab
  \<open>e0\<close>; pointer-moves with another identifier are ignored, and after every pointer-move
  with the matching identifier the node's position is the pointer's world position
  minus the offset between the pointer's world position and the node's position at grab
  time, for any container position \<open>c\<close> that stays fixed during the gesture. (The source
  subtracts in global coordinates; the container translation cancels.)
\<close>

theorem drag_position:
  assumes "filter (\<lambda>e. pointerId e = pointerId e0) es \<noteq> []"
  shows "node_x (dragMoves es (onDragStart e0 n)) =
           fst (toLocal c (global (last (filter (\<lambda>e. pointerId e = pointerId e0) es))))
             - (fst (toLocal c (global e0)) - node_x n)
       \<and> node_y (dragMoves es (onDragStart e0 n)) =
           snd (toLocal c (global (last (filter (\<lambda>e. pointerId e = pointerId e0) es))))
             - (snd (toLocal c (global e0)) - node_y n)
       \<and> dragOffset (dragMoves es (onDragStart e0 n)) =
           (fst (global e0) - node_x n, snd (global e0) - node_y n)"
proof -
  let ?m = "onDragStart e0 n"
  have started: "dragging ?m" "dragPointerId ?m = Some (pointerId e0)"
    by (simp_all add: onDragStart_def)
  have "dragMoves es ?m = dragMoves (filter (\<lambda>e. pointerId e = pointerId e0) es) ?m"
    using dragMoves_filter [OF started] .
  then show ?thesis
    using dragMoves_matching [OF started, of "filter (\<lambda>e. pointerId e = pointerId e0) es"] assms
    by (simp add: onDragStart_def toLocal_def)
qed

text \<open>
  An image node grabbed with the pointer at (150, 160) while it is at (100, 100): the
  offset is (50, 60), and moving the pointer to (250, 260), while another pointer moves
  too, puts the node at (200, 200).
\<close>

theorem drag_position_witness:
  "filter (\<lambda>e. pointerId e = pointerId (pointer 1 150 160))
     [pointer 1 200 180, pointer 1 250 260, pointer 2 0 0] = [pointer 1 200 180, pointer 1 250 260]
   \<and> node_x example_node = 100 \<and> node_y example_node = 100
   \<and> dragOffset (onDragStart (pointer 1 150 160) example_node) = (50, 60)
   \<and> node_x (dragMoves [pointer 1 200 180, pointer 1 250 260, pointer 2 0 0]
               (onDragStart (pointer 1 150 160) example_node)) = 200
   \<and> node_y (dragMoves [pointer 1 200 180, pointer 1 250 260, pointer 2 0 0]
               (onDragStart (pointer 1 150 160) example_node)) = 200"
proof -
  have moves1: "filter (\<lambda>e. pointerId e = 1)
     [pointer 1 200 180, pointer 1 250 260, pointer 2 0 0] = [pointer 1 200 180, pointer 1 250 260]"
    by (simp add: pointer_simps)
  then have moves: "filter (\<lambda>e. pointerId e = pointerId (pointer 1 150 160))
     [pointer 1 200 180, pointer 1 250 260, pointer 2 0 0] = [pointer 1 200 180, pointer 1 250 260]"
    by (simp add: pointer_simps del: filter.simps)
  show ?thesis
    using drag_position [of "pointer 1 150 160" "[pointer 1 200 180, pointer 1 250 260, pointer 2 0 0]"
        example_node "(0, 0)", unfolded moves]
    by (simp add: moves1 example_node_simps pointer_simps toLocal_def onDragStart_def del: filter.simps)
qed

section \<open>Wheel scaling and the scale bounds\<close>

lemma wheel_factor:
  "(if c then b powr (- d * 2) else b powr (- d)) = b powr (- ((if c then 2 else 1) * d))"
  for b d :: real
  by (simp add: mult.commute)

lemma handleWheel_selected:
  assumes "r_selectedImage (rendered st) = Some sel" and "nodes st (img_node sel) = Some n"
  shows "handleWheel e st =
           resizedListener (img_id sel) (wheelScale e n)
             (update_node (img_node sel) (setScale (wheelScale e n)) st)"
  using assms
  unfolding handleWheel_def wheel_factor
  by (simp add: resizedListener_def wheelScale_def Let_def getScale_def
      update_node_def case_prod_beta)

lemma nodes_debouncedAutoSaveRef: "nodes (debouncedAutoSaveRef st) = nodes st"
  by (simp add: debouncedAutoSaveRef_def debouncedAutoSave_def Let_def)

lemma nodes_resizedListener: "nodes (resizedListener i s st) = nodes st"
  by (simp add: resizedListener_def nodes_debouncedAutoSaveRef)

lemma wheel_scales_selected_image_aux:
  assumes "r_selectedImage (rendered st) = Some sel" and "nodes st (img_node sel) = Some n"
  shows "nodes (handleWheel e st) (img_node sel) = Some (n\<lparr> sprite_scale := wheelScale e n \<rparr>)"
  using assms
  by (simp add: handleWheel_selected nodes_resizedListener update_node_def setScale_def)

text \<open>
  C9, amended. For every wheel event with delta \<open>\<Delta>\<close> occurring while an image object is
  selected (the image selection that \<^verbatim>\<open>selectedImageRef\<close> holds), the selected
  node's scale becomes \<open>clamp (scale \<times> 1.0015 powr (- k \<Delta>)) minScale maxScale\<close> with
  \<open>k = 2\<close> when ctrl is held and \<open>k = 1\<close> otherwise; only the scale of the node
  changes, so the drag and resize flags are untouched; the state update is that of the
  \<^verbatim>\<open>resized\<close> listener for that scale, and the debounce timer is armed at once.
  The texture of the selected node has positive dimensions. A wheel event while no image
  is selected (in any state \<open>st0\<close> whose image selection is empty) changes nothing.
\<close>

theorem wheel_scales_selected_image:
  assumes "r_selectedImage (rendered st) = Some sel" and "nodes st (img_node sel) = Some n"
      and "positive_texture n" and "r_selectedImage (rendered st0) = None"
  shows "nodes (handleWheel e st) (img_node sel) = Some (n\<lparr> sprite_scale := wheelScale e n \<rparr>)
       \<and> handleWheel e st =
           resizedListener (img_id sel) (wheelScale e n)
             (update_node (img_node sel) (setScale (wheelScale e n)) st)
       \<and> saveDebounceRef (handleWheel e st) =
           Some (clock st + 2000, length (r_images (rendered st)), length (r_texts (rendered st)))
       \<and> handleWheel e st0 = st0"
  using assms(1,2,4)
  by (simp add: handleWheel_selected nodes_resizedListener update_node_def setScale_def
      resizedListener_def debouncedAutoSaveRef_def debouncedAutoSave_def Let_def)
     (simp add: handleWheel_def)

lemma selected_image_canvas_simps:
  "r_selectedImage (rendered selected_image_canvas) =
     Some \<lparr> img_id = ''1'', img_node = 0, img_x = 100, img_y = 100, img_scale = 1, imageUrl = ''a.png'' \<rparr>"
  "nodes selected_image_canvas 0 = Some (showSelection example_node)"
  by (simp_all add: selected_image_canvas_def image_canvas_def rerender_def imageClick_def
      createSpriteFromTexture_def initial_canvas_def update_node_def example_node_def
      example_texture_def new_DraggableResizable_def hideSelection_def showSelection_def
      getScale_def Math_round_def debouncedAutoSave_def Let_def)

lemma selected_text_canvas_simps:
  "r_selectedImage (rendered selected_text_canvas) = None"
  "r_selectedText (rendered selected_text_canvas) = Some example_text"
  "selectedText selected_text_canvas = Some example_text"
  "map_option t_text (textNodes selected_text_canvas 0) = Some (Some 1)"
  "map_option t_frame_visible (textNodes selected_text_canvas 0) = Some True"
  by (simp_all add: selected_text_canvas_def text_canvas_def rerender_def textClick_def
      createTextElement_def textReady_def initial_canvas_def update_textNode_def example_text_def
      new_DraggableResizableText_def fontLoaded_def redrawFrame_text_def showSelection_text_def
      debouncedAutoSaveRef_def debouncedAutoSave_def Let_def)

text \<open>
  C9 as stated fails when the current selection is a text object: the handler returns at
  once, the state is unchanged and the text keeps scale 1, while the claimed scale
  \<open>clamp (1 \<times> 1.0015 powr 100) minScale 8\<close> is greater than 1 for every lower bound.
\<close>

theorem wheel_ignores_selected_text:
  "selectedText selected_text_canvas = Some example_text
   \<and> handleWheel \<lparr> deltaY = - 100, ctrlKey = False \<rparr> selected_text_canvas = selected_text_canvas
   \<and> map_option t_text (textNodes (handleWheel \<lparr> deltaY = - 100, ctrlKey = False \<rparr> selected_text_canvas) 0)
       = Some (Some 1)
   \<and> (1::real) < min 8 (1 * (10015 / 10000) powr (- (- 100)))"
proof -
  have "(1::real) < (10015 / 10000) powr 100"
    by (rule gr_one_powr) simp_all
  then show ?thesis
    by (simp add: selected_text_canvas_simps handleWheel_def)
qed

lemma text_clamp: "1 / 10 \<le> max (1 / 10) (min 5 v) \<and> max (1 / 10) (min 5 v) \<le> (5::real)"
  by (simp add: max_def min_def)

lemma getScaleConstraints_onResizeStart:
  "getScaleConstraints (onResizeStart c e n) = getScaleConstraints n"
  by (simp add: getScaleConstraints_def onResizeStart_def Let_def)

lemma sprite_scale_showSelection: "sprite_scale (showSelection n) = sprite_scale n"
  by (simp add: showSelection_def)

lemma positive_texture_showSelection: "positive_texture (showSelection n) = positive_texture n"
  by (simp add: positive_texture_def showSelection_def)

lemma positive_texture_onResizeStart: "positive_texture (onResizeStart c e n) = positive_texture n"
  by (simp add: positive_texture_def onResizeStart_def Let_def)

lemma getScaleConstraints_showSelection:
  "getScaleConstraints (showSelection n) = getScaleConstraints n"
  by (simp add: getScaleConstraints_def showSelection_def)

text \<open>
  A ctrl-wheel event of delta -100 on \<open>selected_image_canvas\<close>, and on the initial
  canvas, where nothing is selected.
\<close>

theorem wheel_scales_selected_image_witness:
  "r_selectedImage (rendered selected_image_canvas) =
     Some \<lparr> img_id = ''1'', img_node = 0, img_x = 100, img_y = 100, img_scale = 1, imageUrl = ''a.png'' \<rparr>
   \<and> nodes selected_image_canvas 0 = Some (showSelection example_node)
   \<and> positive_texture (showSelection example_node)
   \<and> r_selectedImage (rendered initial_canvas) = None
   \<and> nodes (handleWheel \<lparr> deltaY = - 100, ctrlKey = True \<rparr> selected_image_canvas) 0 =
       Some ((showSelection example_node)
              \<lparr> sprite_scale := max (1 / 5) (min 8 (1 * (10015 / 10000) powr (- (2 * - 100)))) \<rparr>)
   \<and> handleWheel \<lparr> deltaY = - 100, ctrlKey = True \<rparr> initial_canvas = initial_canvas"
  using wheel_scales_selected_image [of selected_image_canvas
      "\<lparr> img_id = ''1'', img_node = 0, img_x = 100, img_y = 100, img_scale = 1, imageUrl = ''a.png'' \<rparr>"
      "showSelection example_node" initial_canvas "\<lparr> deltaY = - 100, ctrlKey = True \<rparr>", THEN conjunct1]
    wheel_scales_selected_image [of selected_image_canvas
      "\<lparr> img_id = ''1'', img_node = 0, img_x = 100, img_y = 100, img_scale = 1, imageUrl = ''a.png'' \<rparr>"
      "showSelection example_node" initial_canvas "\<lparr> deltaY = - 100, ctrlKey = True \<rparr>",
      THEN conjunct2, THEN conjunct2, THEN conjunct2]
  by (simp add: selected_image_canvas_simps wheelScale_def getScaleConstraints_showSelection
      sprite_scale_showSelection positive_texture_showSelection example_node_simps
      initial_canvas_def)

lemma onResizeMove_applied:
  assumes "resizing n" "resizePointerId n = Some (pointerId e)" "has_parent n"
  shows "onResizeMove c e n =
           n\<lparr> sprite_scale := min (snd (getScaleConstraints n))
                  (max (fst (getScaleConstraints n))
                     (startScale n * (pointerDistance c e n / startProj n))) \<rparr>"
  using assms
  by (simp add: onResizeMove_def pointerDistance_def Let_def case_prod_beta)

lemma getScaleConstraints_sprite_scale [simp]:
  "getScaleConstraints (n\<lparr> sprite_scale := s \<rparr>) = getScaleConstraints n"
  by (simp add: getScaleConstraints_def)

lemma setScale_text_clamped:
  assumes "t_text t = Some s0"
  shows "\<exists>t' s. setScale_text (max (1 / 10) (min 5 v)) t = Inr t' \<and> t_text t' = Some s
           \<and> 1 / 10 \<le> s \<and> s \<le> 5"
  using assms text_clamp [of v]
  by (simp add: setScale_text_def redrawFrame_text_def)

lemma onResizeMove_text_applied:
  assumes "t_resizing t" "t_resizePointerId t = Some (pointerId e)" "t_has_parent t" "t_text t = Some s0"
  shows "\<exists>t' s. onResizeMove_text c e t = Inr t' \<and> t_text t' = Some s \<and> 1 / 10 \<le> s \<and> s \<le> 5"
  unfolding onResizeMove_text_def Let_def
  by (simp only: assms simp_thms if_True if_False) (rule setScale_text_clamped [OF assms(4)])

text \<open>
  C2, amended. For an image node whose constraints are consistent
  (\<open>minScale \<le> maxScale = 8\<close>, with \<open>minScale = max 0.05 (20 / min width height)\<close>), every
  resize-gesture move that applies and every wheel scaling leave the scale inside
  \<open>[minScale, maxScale]\<close>; a resize-gesture move on a text node leaves its scale inside
  \<open>[0.1, 5]\<close>. Creation and document load set the scale without clamping. Textures
  have positive dimensions and the gestures a non-zero starting distance, where the real
  quotients are the floating-point ones.
\<close>

theorem scale_bounds_kept:
  assumes "fst (getScaleConstraints n) \<le> snd (getScaleConstraints n)"
      and "resizing n" and "resizePointerId n = Some (pointerId e)" and "has_parent n"
      and "r_selectedImage (rendered st) = Some sel" and "nodes st (img_node sel) = Some m"
      and "fst (getScaleConstraints m) \<le> snd (getScaleConstraints m)"
      and "t_resizing t" and "t_resizePointerId t = Some (pointerId e)" and "t_has_parent t"
      and "t_text t = Some s0"
      and "positive_texture n" and "startProj n \<noteq> 0" and "positive_texture m"
      and "t_startProj t \<noteq> 0"
  shows "scale_in_bounds (onResizeMove c e n)
       \<and> map_option scale_in_bounds (nodes (handleWheel w st) (img_node sel)) = Some True
       \<and> (\<exists>t' s. onResizeMove_text c e t = Inr t' \<and> t_text t' = Some s \<and> 1 / 10 \<le> s \<and> s \<le> 5)"
proof (intro conjI)
  show "scale_in_bounds (onResizeMove c e n)"
    using assms(1-4) by (simp add: onResizeMove_applied scale_in_bounds_def)
  have "nodes (handleWheel w st) (img_node sel) = Some (m\<lparr> sprite_scale := wheelScale w m \<rparr>)"
    using wheel_scales_selected_image_aux [OF assms(5,6)] .
  moreover have "scale_in_bounds (m\<lparr> sprite_scale := wheelScale w m \<rparr>)"
    using assms(7) by (simp add: scale_in_bounds_def wheelScale_def)
  ultimately show "map_option scale_in_bounds (nodes (handleWheel w st) (img_node sel)) = Some True"
    by simp
  show "\<exists>t' s. onResizeMove_text c e t = Inr t' \<and> t_text t' = Some s \<and> 1 / 10 \<le> s \<and> s \<le> 5"
    using assms(8-11) by (rule onResizeMove_text_applied)
qed

lemma resize_started_simps:
  "resizing (onResizeStart (7, 9) (pointer 1 137 149) example_node)"
  "resizePointerId (onResizeStart (7, 9) (pointer 1 137 149) example_node) = Some 1"
  "has_parent (onResizeStart (7, 9) (pointer 1 137 149) example_node)"
  "getScaleConstraints (onResizeStart (7, 9) (pointer 1 137 149) example_node) = (1 / 5, 8)"
  "positive_texture (onResizeStart (7, 9) (pointer 1 137 149) example_node)"
  "startProj (onResizeStart (7, 9) (pointer 1 137 149) example_node) = 50"
  using example_distances(1)
  by (simp_all add: getScaleConstraints_onResizeStart positive_texture_onResizeStart example_node_simps)
     (simp_all add: onResizeStart_def pointerDistance_def Let_def example_node_simps pointer_simps)

text \<open>The three operations at the example node, the example canvas and the example text node.\<close>

theorem scale_bounds_kept_witness:
  "fst (getScaleConstraints (onResizeStart (7, 9) (pointer 1 137 149) example_node))
     \<le> snd (getScaleConstraints (onResizeStart (7, 9) (pointer 1 137 149) example_node))
   \<and> resizing (onResizeStart (7, 9) (pointer 1 137 149) example_node)
   \<and> resizePointerId (onResizeStart (7, 9) (pointer 1 137 149) example_node) = Some (pointerId (pointer 1 167 189))
   \<and> has_parent (onResizeStart (7, 9) (pointer 1 137 149) example_node)
   \<and> nodes selected_image_canvas 0 = Some (showSelection example_node)
   \<and> fst (getScaleConstraints (showSelection example_node)) \<le> snd (getScaleConstraints (showSelection example_node))
   \<and> t_resizing resizing_text \<and> t_resizePointerId resizing_text = Some (pointerId (pointer 1 167 189))
   \<and> t_has_parent resizing_text \<and> t_text resizing_text = Some 1
   \<and> positive_texture (onResizeStart (7, 9) (pointer 1 137 149) example_node)
   \<and> startProj (onResizeStart (7, 9) (pointer 1 137 149) example_node) = 50
   \<and> positive_texture (showSelection example_node) \<and> t_startProj resizing_text = 50
   \<and> scale_in_bounds (onResizeMove (7, 9) (pointer 1 167 189)
         (onResizeStart (7, 9) (pointer 1 137 149) example_node))
   \<and> map_option scale_in_bounds
         (nodes (handleWheel \<lparr> deltaY = - 100, ctrlKey = True \<rparr> selected_image_canvas) 0) = Some True
   \<and> (\<exists>t' s. onResizeMove_text (7, 9) (pointer 1 167 189) resizing_text = Inr t'
         \<and> t_text t' = Some s \<and> 1 / 10 \<le> s \<and> s \<le> 5)"
  using scale_bounds_kept [of "onResizeStart (7, 9) (pointer 1 137 149) example_node"
      "pointer 1 167 189" selected_image_canvas
      "\<lparr> img_id = ''1'', img_node = 0, img_x = 100, img_y = 100, img_scale = 1, imageUrl = ''a.png'' \<rparr>"
      "showSelection example_node" resizing_text 1 "(7, 9)" "\<lparr> deltaY = - 100, ctrlKey = True \<rparr>"]
  by (simp add: resize_started_simps selected_image_canvas_simps pointer_simps resizing_text_def
      getScaleConstraints_showSelection positive_texture_showSelection example_node_simps)

text \<open>
  C2 as stated fails at creation and at load: an 8000 by 4000 image is created at scale
  \<open>min 1 (200 / 8000) = 0.025\<close>, below its \<open>minScale = 0.05\<close>; a stored scale of 20 is
  applied as it is, above \<open>maxScale = 8\<close>.
\<close>

theorem scale_bounds_counterexample:
  "map_option scale_in_bounds
     (nodes (createSpriteFromTexture large_texture 100 100 ''a.png'' ''1'' initial_canvas) 0) = Some False
   \<and> map_option sprite_scale
     (nodes (createSpriteFromTexture large_texture 100 100 ''a.png'' ''1'' initial_canvas) 0) = Some (1 / 40)
   \<and> map_option getScaleConstraints
     (nodes (createSpriteFromTexture large_texture 100 100 ''a.png'' ''1'' initial_canvas) 0) = Some (1 / 20, 8)
   \<and> \<not> scale_in_bounds (materialize example_texture
          \<lparr> s_id = ''1'', s_imageUrl = ''a.png'', s_x = 0, s_y = 0, s_scale = 20 \<rparr>)"
  by (simp add: createSpriteFromTexture_def initial_canvas_def large_texture_def example_texture_def
      new_DraggableResizable_def hideSelection_def scale_in_bounds_def getScaleConstraints_def
      materialize_def setScale_def Let_def)

section \<open>Debounced save\<close>

lemma debouncedAutoSaveRef_fields:
  "saveDebounceRef (debouncedAutoSaveRef st) =
     Some (clock st + 2000, length (r_images (rendered st)), length (r_texts (rendered st)))"
  "clock (debouncedAutoSaveRef st) = clock st"
  "saveCalls (debouncedAutoSaveRef st) = saveCalls st"
  "rendered (debouncedAutoSaveRef st) = rendered st"
  by (simp_all add: debouncedAutoSaveRef_def debouncedAutoSave_def Let_def)

lemma advance_before_deadline:
  assumes "saveDebounceRef st = Some (deadline, ilen, tlen)" and "clock st + d < deadline"
  shows "advance d st = st\<lparr> clock := clock st + d \<rparr>"
  using assms by (simp add: advance_def)

lemma canvasData_of_cong:
  assumes "nodes st' = nodes st" and "textNodes st' = textNodes st" and "container st' = container st"
  shows "canvasData_of imgs txts st' = canvasData_of imgs txts st"
proof -
  have "save_image st' = save_image st"
    using assms by (simp add: save_image_def fun_eq_iff)
  moreover have "save_text st' = save_text st"
    unfolding save_text_def fun_eq_iff assms by simp
  then have "save_texts st' txts = save_texts st txts"
    by (induction txts) (simp_all split: sum.splits)
  ultimately show ?thesis
    using assms by (simp add: canvasData_of_def split: sum.splits)
qed

lemma advance_fires:
  assumes "saveDebounceRef st = Some (deadline, ilen, tlen)" and "deadline \<le> clock st + d"
      and "clock st \<le> deadline"
  shows "saveCalls (advance d st) =
           saveCalls st @ (if 0 < ilen \<or> 0 < tlen
                           then [(deadline, canvasData_of (r_images (rendered st)) (r_texts (rendered st)) st)]
                           else [])"
    and "saveDebounceRef (advance d st) = None"
    and "clock (advance d st) = clock st + d"
  using assms
  by (simp_all add: advance_def autoSaveCallback_def saveToAPIRef_def saveToAPI_def max_def
      canvasData_of_cong [of "st\<lparr>clock := deadline, saveDebounceRef := None\<rparr>" st])

lemma burst_armed:
  assumes "\<forall>step \<in> set steps. fst step < 2000 \<and> document_edit (snd step)"
  shows "saveDebounceRef (burst steps st) =
           Some (clock (burst steps st) + 2000,
                 length (r_images (rendered (burst steps st))),
                 length (r_texts (rendered (burst steps st))))
       \<and> saveCalls (burst steps st) = saveCalls st"
  using assms
proof (induction steps arbitrary: st)
  case Nil
  then show ?case by (simp add: debouncedAutoSaveRef_fields)
next
  case (Cons step steps)
  obtain gap edit where step: "step = (gap, edit)" by (cases step)
  let ?t = "debouncedAutoSaveRef st"
  have gap: "gap < 2000" and edit: "document_edit edit"
    using Cons.prems step by simp_all
  have "advance gap ?t = ?t\<lparr> clock := clock ?t + gap \<rparr>"
    using gap by (intro advance_before_deadline [where deadline = "clock st + 2000"])
      (simp_all add: debouncedAutoSaveRef_fields)
  then have "saveCalls (edit (advance gap ?t)) = saveCalls st"
    using edit by (simp add: document_edit_def debouncedAutoSaveRef_fields)
  moreover have "\<forall>step \<in> set steps. fst step < 2000 \<and> document_edit (snd step)"
    using Cons.prems by simp
  ultimately show ?case
    using Cons.IH [of "edit (advance gap ?t)"] step by simp
qed

text \<open>
  C5, amended. A burst of \<open>n \<ge> 1\<close> save triggers, each within 2000 ms of the one
  before, followed by any document edit and 2000 ms or more without a trigger, makes at
  most one save call: exactly one, 2000 ms after the last trigger and with the body
  serialised from the state at that moment (after the last edit), when the image or the
  text collection seen by the last trigger was non-empty, and none when both were empty.
\<close>

theorem burst_saves_once:
  assumes "\<forall>step \<in> set steps. fst step < 2000 \<and> document_edit (snd step)"
      and "document_edit final" and "2000 \<le> d"
  shows "saveCalls (advance d (final (burst steps st))) =
           saveCalls st @
             (if 0 < length (r_images (rendered (burst steps st)))
                 \<or> 0 < length (r_texts (rendered (burst steps st)))
              then [(clock (burst steps st) + 2000,
                     canvasData_of (r_images (rendered (final (burst steps st))))
                       (r_texts (rendered (final (burst steps st)))) (final (burst steps st)))]
              else [])"
proof -
  let ?b = "burst steps st"
  have armed: "saveDebounceRef (final ?b) =
      Some (clock ?b + 2000, length (r_images (rendered ?b)), length (r_texts (rendered ?b)))"
    and clk: "clock (final ?b) = clock ?b" and calls: "saveCalls (final ?b) = saveCalls st"
    using burst_armed [OF assms(1), of st] assms(2) by (simp_all add: document_edit_def)
  show ?thesis
    using advance_fires(1) [OF armed, of d] assms(3) clk calls by simp
qed

lemma document_edit_panTo: "document_edit (panTo px py)"
  by (simp add: document_edit_def panTo_def)

lemma image_canvas_fields:
  "images image_canvas =
     [\<lparr> img_id = ''1'', img_node = 0, img_x = 100, img_y = 100, img_scale = 1, imageUrl = ''a.png'' \<rparr>]"
  "texts image_canvas = []"
  "r_images (rendered image_canvas) = images image_canvas"
  "r_texts (rendered image_canvas) = []"
  "nodes image_canvas 0 = Some example_node"
  "clock image_canvas = 0"
  "saveCalls image_canvas = []"
  "saveDebounceRef image_canvas = Some (2000, 1, 0)"
  "container image_canvas = (0, 0)"
  by (simp_all add: image_canvas_def rerender_def createSpriteFromTexture_def initial_canvas_def
      example_node_def example_texture_def new_DraggableResizable_def hideSelection_def
      getScale_def Math_round_def debouncedAutoSave_def Let_def)

lemma example_canvasData:
  assumes "nodes st 0 = Some example_node" and "container st = p"
  shows "canvasData_of (images image_canvas) [] st =
           Inr \<lparr> cd_images = Some [\<lparr> s_id = ''1'', s_imageUrl = ''a.png'', s_x = 100, s_y = 100,
                                       s_scale = 1 \<rparr>],
                 cd_texts = [], canvasPosition = p \<rparr>"
  using assms
  by (simp add: canvasData_of_def image_canvas_fields save_image_def
      example_node_simps getScale_def js_or_def)

lemma burst_example_fields:
  "clock (burst [(500, panTo 5 5), (1500, panTo 9 9)] image_canvas) = 2000"
  "rendered (burst [(500, panTo 5 5), (1500, panTo 9 9)] image_canvas) = rendered image_canvas"
  "nodes (burst [(500, panTo 5 5), (1500, panTo 9 9)] image_canvas) = nodes image_canvas"
  by (simp_all add: debouncedAutoSaveRef_def debouncedAutoSave_def advance_def panTo_def
      image_canvas_fields Let_def)

lemma panTo_fields:
  "rendered (panTo px py st) = rendered st" "nodes (panTo px py st) = nodes st"
  "container (panTo px py st) = (px, py)"
  by (simp_all add: panTo_def)

text \<open>
  Three triggers at 0, 500 and 2000 ms on the canvas with one image, the container being
  panned in between and once more after the last trigger: one save call, at 4000 ms, with
  the last container position.
\<close>

theorem burst_saves_once_witness:
  "(500::nat) < 2000 \<and> document_edit (panTo 5 5) \<and> (1500::nat) < 2000 \<and> document_edit (panTo 9 9)
   \<and> document_edit (panTo 12 12)
   \<and> saveCalls (advance 2000 (panTo 12 12 (burst [(500, panTo 5 5), (1500, panTo 9 9)] image_canvas))) =
       [(4000, Inr \<lparr> cd_images = Some [\<lparr> s_id = ''1'', s_imageUrl = ''a.png'', s_x = 100,
                                            s_y = 100, s_scale = 1 \<rparr>],
                      cd_texts = [], canvasPosition = (12, 12) \<rparr>)]"
proof -
  let ?b = "burst [(500, panTo 5 5), (1500, panTo 9 9)] image_canvas"
  have steps: "\<forall>step \<in> set [(500::nat, panTo 5 5), (1500, panTo 9 9)]. fst step < 2000 \<and> document_edit (snd step)"
    by (simp add: document_edit_panTo)
  have data: "canvasData_of (r_images (rendered (panTo 12 12 ?b))) (r_texts (rendered (panTo 12 12 ?b)))
                (panTo 12 12 ?b) =
              Inr \<lparr> cd_images = Some [\<lparr> s_id = ''1'', s_imageUrl = ''a.png'', s_x = 100,
                                          s_y = 100, s_scale = 1 \<rparr>],
                    cd_texts = [], canvasPosition = (12, 12) \<rparr>"
    using example_canvasData [of "panTo 12 12 ?b" "(12, 12)"]
    by (simp add: panTo_fields burst_example_fields image_canvas_fields del: burst.simps)
  have "saveCalls (advance 2000 (panTo 12 12 ?b)) =
          [(4000, Inr \<lparr> cd_images = Some [\<lparr> s_id = ''1'', s_imageUrl = ''a.png'', s_x = 100,
                                               s_y = 100, s_scale = 1 \<rparr>],
                         cd_texts = [], canvasPosition = (12, 12) \<rparr>)]"
    using burst_saves_once [OF steps document_edit_panTo [of 12 12], of 2000 image_canvas] data
    by (simp add: burst_example_fields image_canvas_fields del: burst.simps)
  then show ?thesis
    by (simp add: document_edit_panTo del: burst.simps)
qed

lemma panned_empty_canvas_fields:
  "saveDebounceRef panned_empty_canvas = Some (2000, 0, 0)"
  "clock panned_empty_canvas = 0"
  "saveCalls panned_empty_canvas = []"
  "container panned_empty_canvas = (20, 30)"
  "images panned_empty_canvas = []" "texts panned_empty_canvas = []"
  by (simp_all add: panned_empty_canvas_def containerPointerMove_def containerPointerDown_def
      initial_canvas_def pointer_def debouncedAutoSaveRef_def debouncedAutoSave_def Let_def)

text \<open>
  C5 as stated fails on an empty canvas: one pan move is one save trigger, and when its
  window elapses no save call is made.
\<close>

theorem burst_on_empty_canvas_saves_nothing:
  "saveDebounceRef panned_empty_canvas = Some (2000, 0, 0)
   \<and> container panned_empty_canvas = (20, 30)
   \<and> saveCalls (advance 2000 panned_empty_canvas) = []"
  by (simp add: panned_empty_canvas_fields advance_def autoSaveCallback_def)

section \<open>The guard of the timer callback\<close>

lemma handleDeleteImage_arms:
  "saveDebounceRef (handleDeleteImage imageId st) =
     Some (clock st + 2000, length (r_images (rendered st)), length (r_texts (rendered st)))"
  by (simp add: handleDeleteImage_def debouncedAutoSaveRef_def debouncedAutoSave_def Let_def
      split: option.splits)

text \<open>
  C10, amended. When the debounce timer fires and the image and text collections seen by
  the call that armed it were both empty, no save call is made. The call that a deletion
  makes sees the collections of the render before the deletion.
\<close>

theorem empty_guard_skips_save:
  assumes "saveDebounceRef st = Some (deadline, 0, 0)"
      and "deadline \<le> clock st + d" and "clock st \<le> deadline"
  shows "saveCalls (advance d st) = saveCalls st \<and> saveDebounceRef (advance d st) = None
       \<and> saveDebounceRef (handleDeleteImage imageId st') =
           Some (clock st' + 2000, length (r_images (rendered st')), length (r_texts (rendered st')))"
  using advance_fires(1,2) [OF assms] by (simp add: handleDeleteImage_arms)

text \<open>The timer armed by a pan on the empty canvas fires without a save call.\<close>

theorem empty_guard_skips_save_witness:
  "saveDebounceRef panned_empty_canvas = Some (2000, 0, 0)
   \<and> 2000 \<le> clock panned_empty_canvas + 2500 \<and> clock panned_empty_canvas \<le> 2000
   \<and> saveCalls (advance 2500 panned_empty_canvas) = []
   \<and> saveDebounceRef (advance 2500 panned_empty_canvas) = None
   \<and> saveDebounceRef (handleDeleteImage ''1'' image_canvas) = Some (2000, 1, 0)"
  using empty_guard_skips_save [of panned_empty_canvas 2000 2500 "''1''" image_canvas]
  by (simp add: panned_empty_canvas_fields image_canvas_fields)

lemma deleted_last_canvas_fields:
  "images deleted_last_canvas = []" "texts deleted_last_canvas = []"
  "r_images (rendered deleted_last_canvas) = []" "r_texts (rendered deleted_last_canvas) = []"
  "selectedImage deleted_last_canvas = None"
  "saveDebounceRef deleted_last_canvas = Some (7000, 1, 0)"
  "clock deleted_last_canvas = 5000"
  "container deleted_last_canvas = (0, 0)"
  "length (saveCalls deleted_last_canvas) = 1"
  by (simp_all add: deleted_last_canvas_def rerender_def handleDeleteImage_def imageClick_def
      advance_def autoSaveCallback_def saveToAPIRef_def saveToAPI_def update_node_def
      image_canvas_fields debouncedAutoSaveRef_def debouncedAutoSave_def Let_def)

text \<open>
  C10 as stated fails: after the last remaining image is deleted, both collections are
  empty, the timer armed by the deletion fires 2000 ms later and the emptied document is
  posted.
\<close>

theorem deleting_last_object_saves_empty_document:
  "images deleted_last_canvas = [] \<and> texts deleted_last_canvas = []
   \<and> r_images (rendered deleted_last_canvas) = [] \<and> r_texts (rendered deleted_last_canvas) = []
   \<and> saveCalls (advance 2000 deleted_last_canvas) =
       saveCalls deleted_last_canvas @
         [(7000, Inr \<lparr> cd_images = Some [], cd_texts = [], canvasPosition = (0, 0) \<rparr>)]"
  by (simp add: deleted_last_canvas_fields advance_def autoSaveCallback_def saveToAPIRef_def
      saveToAPI_def canvasData_of_def)

section \<open>Loading and saving\<close>

lemma body_cases:
  "loadCanvasData_image R s = (if resolvable R s then
       (case R (s_imageUrl s) of Resolved tex \<Rightarrow> Inr (Some (materialize tex s)) | _ \<Rightarrow> Inr None)
     else if s_imageUrl s \<noteq> [] \<and> R (s_imageUrl s) = Rejected then Inl LoadError else Inr None)"
  "loadFromAPI_image R s = (if resolvable R s then
       (case R (s_imageUrl s) of Resolved tex \<Rightarrow> Inr (Some (materialize tex s)) | _ \<Rightarrow> Inr None)
     else Inr None)"
  by (simp_all add: loadCanvasData_image_def loadFromAPI_image_def resolvable_def resolves_def
      split: texture_result.splits)

lemma materialises_bodies:
  "materialises R (loadCanvasData_image R)" "materialises R (loadFromAPI_image R)"
  by (auto simp: materialises_def body_cases resolvable_def resolves_def split: texture_result.splits)

lemma materialize_fields:
  "node_x (materialize tex s) = Math_round (s_x s)" "node_y (materialize tex s) = Math_round (s_y s)"
  "sprite_scale (materialize tex s) = s_scale s"
  by (simp_all add: materialize_def Let_def hideSelection_def setScale_def)

lemma load_images_result:
  assumes "materialises R body" and "\<forall>img \<in> set loaded. img_node img < next_ref st"
  shows "map (image_view (fst (load_images body ss st loaded))) (snd (load_images body ss st loaded)) =
           map (image_view st) loaded @ map stored_view (filter (resolvable R) ss)
       \<and> (\<forall>img \<in> set (snd (load_images body ss st loaded)).
             img_node img < next_ref (fst (load_images body ss st loaded)))
       \<and> container (fst (load_images body ss st loaded)) = container st
       \<and> textNodes (fst (load_images body ss st loaded)) = textNodes st
       \<and> texts (fst (load_images body ss st loaded)) = texts st"
  using assms(2)
proof (induction ss arbitrary: st loaded)
  case Nil
  then show ?case by simp
next
  case (Cons s ss)
  show ?case
  proof (cases "resolvable R s")
    case True
    then obtain tex where body: "body s = Inr (Some (materialize tex s))"
      using assms(1) by (auto simp: materialises_def)
    let ?a = "next_ref st"
    let ?st1 = "st\<lparr> nodes := (nodes st)(?a \<mapsto> materialize tex s), next_ref := ?a + 1 \<rparr>"
    let ?new = "\<lparr> img_id = s_id s, img_node = ?a, img_x = node_x (materialize tex s),
                   img_y = node_y (materialize tex s), img_scale = getScale (materialize tex s),
                   imageUrl = s_imageUrl s \<rparr>"
    have step: "load_images body (s # ss) st loaded = load_images body ss ?st1 (loaded @ [?new])"
      using body by (simp add: Let_def)
    have below: "\<forall>img \<in> set (loaded @ [?new]). img_node img < next_ref ?st1"
      using Cons.prems by auto
    have old: "map (image_view ?st1) loaded = map (image_view st) loaded"
      using Cons.prems by (auto simp: image_view_def)
    have new: "image_view ?st1 ?new = stored_view s"
      by (simp add: image_view_def stored_view_def materialize_fields)
    show ?thesis
      using Cons.IH [OF below] True old new unfolding step by simp
  next
    case False
    then have "body s = Inr None \<or> (\<exists>e. body s = Inl e)"
      using assms(1) by (auto simp: materialises_def)
    then have step: "load_images body (s # ss) st loaded = load_images body ss st loaded"
      by auto
    show ?thesis
      using Cons.IH [OF Cons.prems] False unfolding step by simp
  qed
qed

lemma load_texts_keeps:
  "nodes (fst (load_texts ts st loaded)) = nodes st
   \<and> images (fst (load_texts ts st loaded)) = images st
   \<and> container (fst (load_texts ts st loaded)) = container st"
  by (induction ts arbitrary: st loaded) (auto simp: Let_def split: sum.splits option.splits)

lemma images_loadCanvasData:
  assumes "cd_images d = Some stored"
  shows "snd (loadCanvasData R d st) = None"
    and "map (image_view (fst (loadCanvasData R d st))) (images (fst (loadCanvasData R d st))) =
           map stored_view (filter (resolvable R) stored)"
    and "container (fst (loadCanvasData R d st)) = canvasPosition d"
proof -
  let ?st3 = "st\<lparr> nodes := destroy_all (map img_node (r_images (rendered st))) (nodes st),
                  images := [], selectedImage := None,
                  textNodes := destroy_all (map txt_node (r_texts (rendered st))) (textNodes st),
                  texts := [], selectedText := None, container := canvasPosition d \<rparr>"
  let ?r = "load_images (loadCanvasData_image R) stored ?st3 []"
  let ?st5 = "(fst ?r)\<lparr> images := snd ?r \<rparr>"
  let ?t = "load_texts (cd_texts d) ?st5 []"
  have eq: "loadCanvasData R d st = ((fst ?t)\<lparr> texts := snd ?t \<rparr>, None)"
    using assms by (simp add: loadCanvasData_def Let_def case_prod_beta)
  have r: "map (image_view (fst ?r)) (snd ?r) = map stored_view (filter (resolvable R) stored)"
      "container (fst ?r) = canvasPosition d"
    using load_images_result [OF materialises_bodies(1), of "[]" ?st3 R stored] by simp_all
  have view: "image_view ((fst ?t)\<lparr> texts := snd ?t \<rparr>) = image_view (fst ?r)"
    using load_texts_keeps [of "cd_texts d" ?st5 "[]"] by (simp add: image_view_def fun_eq_iff)
  show "snd (loadCanvasData R d st) = None"
    by (simp add: eq)
  show "map (image_view (fst (loadCanvasData R d st))) (images (fst (loadCanvasData R d st))) =
          map stored_view (filter (resolvable R) stored)"
    unfolding eq fst_conv view using load_texts_keeps [of "cd_texts d" ?st5 "[]"] r(1) by simp
  show "container (fst (loadCanvasData R d st)) = canvasPosition d"
    unfolding eq fst_conv using load_texts_keeps [of "cd_texts d" ?st5 "[]"] r(2) by simp
qed

lemma images_loadFromAPI:
  assumes "cd_images d = Some stored"
  shows "map (image_view (loadFromAPI cap R (Json d) st)) (images (loadFromAPI cap R (Json d) st)) =
           map stored_view (filter (resolvable R) stored)"
    and "container (loadFromAPI cap R (Json d) st) = canvasPosition d"
proof -
  let ?st2 = "st\<lparr> nodes := destroy_all (map img_node cap) (nodes st), images := [],
                  selectedImage := None, container := canvasPosition d \<rparr>"
  let ?r = "load_images (loadFromAPI_image R) stored ?st2 []"
  have eq: "loadFromAPI cap R (Json d) st = (fst ?r)\<lparr> images := snd ?r \<rparr>"
    using assms by (simp add: loadFromAPI_def Let_def case_prod_beta)
  have r: "map (image_view (fst ?r)) (snd ?r) = map stored_view (filter (resolvable R) stored)"
      "container (fst ?r) = canvasPosition d"
    using load_images_result [OF materialises_bodies(2), of "[]" ?st2 R stored] by simp_all
  have view: "image_view ((fst ?r)\<lparr> images := snd ?r \<rparr>) = image_view (fst ?r)"
    by (simp add: image_view_def fun_eq_iff)
  show "map (image_view (loadFromAPI cap R (Json d) st)) (images (loadFromAPI cap R (Json d) st)) =
          map stored_view (filter (resolvable R) stored)"
    unfolding eq view using r(1) by simp
  show "container (loadFromAPI cap R (Json d) st) = canvasPosition d"
    unfolding eq using r(2) by simp
qed

text \<open>
  C6. Loading a document whose \<^verbatim>\<open>images\<close> is a list throws nothing to the caller, on
  either load path, and the live images are exactly the entries whose reference is
  non-empty and resolves, in order: each failing entry is skipped and the rest are
  materialised.
\<close>

theorem load_skips_failing_images:
  assumes "cd_images d = Some stored"
  shows "snd (loadCanvasData R d st) = None
       \<and> map (image_view (fst (loadCanvasData R d st))) (images (fst (loadCanvasData R d st))) =
           map stored_view (filter (resolvable R) stored)
       \<and> map (image_view (loadFromAPI cap R (Json d) st)) (images (loadFromAPI cap R (Json d) st)) =
           map stored_view (filter (resolvable R) stored)"
  using images_loadCanvasData(1,2) [OF assms] images_loadFromAPI(1) [OF assms] by simp

lemma Math_round_numeral [simp]: "Math_round (numeral k) = numeral k"
  by (simp add: Math_round_def)

lemma three_image_document_filter:
  "cd_images three_image_document = Some
     [\<lparr> s_id = ''a'', s_imageUrl = ''a.png'', s_x = 10, s_y = 20, s_scale = 1 \<rparr>,
      \<lparr> s_id = ''b'', s_imageUrl = ''bad.png'', s_x = 0, s_y = 0, s_scale = 1 \<rparr>,
      \<lparr> s_id = ''c'', s_imageUrl = ''c.png'', s_x = 30, s_y = 40, s_scale = 2 \<rparr>]"
  "map stored_view (filter (resolvable example_resolver)
     [\<lparr> s_id = ''a'', s_imageUrl = ''a.png'', s_x = 10, s_y = 20, s_scale = 1 \<rparr>,
      \<lparr> s_id = ''b'', s_imageUrl = ''bad.png'', s_x = 0, s_y = 0, s_scale = 1 \<rparr>,
      \<lparr> s_id = ''c'', s_imageUrl = ''c.png'', s_x = 30, s_y = 40, s_scale = 2 \<rparr>]) =
     [(''a'', ''a.png'', Some (10, 20, 1)), (''c'', ''c.png'', Some (30, 40, 2))]"
  by (simp_all add: three_image_document_def resolvable_def resolves_def example_resolver_def stored_view_def)

text \<open>
  The scenario of C6: three image entries, the second with a reference that fails to
  resolve; two images are materialised and nothing is thrown.
\<close>

theorem load_skips_failing_images_witness:
  "cd_images three_image_document = Some
     [\<lparr> s_id = ''a'', s_imageUrl = ''a.png'', s_x = 10, s_y = 20, s_scale = 1 \<rparr>,
      \<lparr> s_id = ''b'', s_imageUrl = ''bad.png'', s_x = 0, s_y = 0, s_scale = 1 \<rparr>,
      \<lparr> s_id = ''c'', s_imageUrl = ''c.png'', s_x = 30, s_y = 40, s_scale = 2 \<rparr>]
   \<and> example_resolver ''bad.png'' = Rejected
   \<and> snd (loadCanvasData example_resolver three_image_document initial_canvas) = None
   \<and> map (image_view (fst (loadCanvasData example_resolver three_image_document initial_canvas)))
         (images (fst (loadCanvasData example_resolver three_image_document initial_canvas))) =
       [(''a'', ''a.png'', Some (10, 20, 1)), (''c'', ''c.png'', Some (30, 40, 2))]
   \<and> map (image_view (loadFromAPI [] example_resolver (Json three_image_document) initial_canvas))
         (images (loadFromAPI [] example_resolver (Json three_image_document) initial_canvas)) =
       [(''a'', ''a.png'', Some (10, 20, 1)), (''c'', ''c.png'', Some (30, 40, 2))]"
  using load_skips_failing_images [OF three_image_document_filter(1), of example_resolver initial_canvas "[]",
      unfolded three_image_document_filter(2)]
  by (simp add: three_image_document_filter(1) example_resolver_def)

lemma Math_round_near: "\<bar>Math_round v - v\<bar> \<le> 1 / 2"
  unfolding Math_round_def by linarith

lemma Math_round_of_int: "Math_round (of_int k) = of_int k"
  unfolding Math_round_def of_int_eq_iff by linarith

lemma save_image_view:
  assumes "imageUrl img \<noteq> []" and "nodes st (img_node img) \<noteq> None"
      and "resolves R (imageUrl img)"
  shows "\<exists>s. save_image st img = Some s \<and> resolvable R s
             \<and> stored_view s = reloaded (image_view st img)"
  using assms
  by (auto simp: save_image_def resolvable_def resolves_def stored_view_def reloaded_def
      image_view_def js_or_def getScale_def)

lemma saved_images_views:
  assumes "\<forall>img \<in> set imgs. imageUrl img \<noteq> [] \<and> nodes st (img_node img) \<noteq> None
             \<and> resolves R (imageUrl img)"
  shows "map stored_view (filter (resolvable R) (List.map_filter (save_image st) imgs)) =
           map (reloaded \<circ> image_view st) imgs"
  using assms
proof (induction imgs)
  case Nil
  then show ?case by simp
next
  case (Cons img imgs)
  then obtain s where "save_image st img = Some s" "resolvable R s"
      "stored_view s = reloaded (image_view st img)"
    using save_image_view [of img st R] by auto
  then show ?case
    using Cons by simp
qed

text \<open>
  C3, amended. For a document whose images all have a non-empty reference that resolves
  (and a live node), loading the saved document on either load path gives the same images
  in the same order: identifier and reference exactly, the scale exactly when it is
  non-zero, the position rounded to the nearest integer; the pan offset is preserved
  exactly.
\<close>

theorem save_load_roundtrip:
  assumes "canvasData_of imgs txts st = Inr d"
      and "\<forall>img \<in> set imgs. imageUrl img \<noteq> [] \<and> nodes st (img_node img) \<noteq> None
             \<and> resolves R (imageUrl img)"
  shows "snd (loadCanvasData R d st') = None
       \<and> map (image_view (fst (loadCanvasData R d st'))) (images (fst (loadCanvasData R d st'))) =
           map (reloaded \<circ> image_view st) imgs
       \<and> container (fst (loadCanvasData R d st')) = container st
       \<and> map (image_view (loadFromAPI cap R (Json d) st')) (images (loadFromAPI cap R (Json d) st')) =
           map (reloaded \<circ> image_view st) imgs
       \<and> container (loadFromAPI cap R (Json d) st') = container st"
proof -
  have d: "cd_images d = Some (List.map_filter (save_image st) imgs)" "canvasPosition d = container st"
    using assms(1) by (auto simp: canvasData_of_def Let_def split: sum.splits)
  show ?thesis
    using images_loadCanvasData [OF d(1), of R st'] images_loadFromAPI [OF d(1), of cap R st']
      saved_images_views [OF assms(2)] d(2)
    by simp
qed

text \<open>The canvas with one image at (100, 100), saved and loaded into a fresh canvas.\<close>

theorem save_load_roundtrip_witness:
  "canvasData_of (images image_canvas) [] image_canvas = Inr one_image_document
   \<and> map imageUrl (images image_canvas) = [''a.png''] \<and> nodes image_canvas 0 = Some example_node
   \<and> resolves example_resolver ''a.png''
   \<and> map (image_view image_canvas) (images image_canvas) = [(''1'', ''a.png'', Some (100, 100, 1))]
   \<and> snd (loadCanvasData example_resolver one_image_document initial_canvas) = None
   \<and> map (image_view (fst (loadCanvasData example_resolver one_image_document initial_canvas)))
         (images (fst (loadCanvasData example_resolver one_image_document initial_canvas))) =
       [(''1'', ''a.png'', Some (100, 100, 1))]
   \<and> container (fst (loadCanvasData example_resolver one_image_document initial_canvas)) = (0, 0)"
proof -
  have saved: "canvasData_of (images image_canvas) [] image_canvas = Inr one_image_document"
    using example_canvasData [of image_canvas "(0, 0)"]
    by (simp add: image_canvas_fields one_image_document_def)
  have valid: "\<forall>img \<in> set (images image_canvas). imageUrl img \<noteq> []
      \<and> nodes image_canvas (img_node img) \<noteq> None \<and> resolves example_resolver (imageUrl img)"
    by (simp add: image_canvas_fields resolves_def example_resolver_def)
  have view: "map (image_view image_canvas) (images image_canvas) = [(''1'', ''a.png'', Some (100, 100, 1))]"
    by (simp add: image_canvas_fields image_view_def example_node_simps)
  show ?thesis
    using save_load_roundtrip [OF saved valid, of initial_canvas "[]"] saved view
    by (simp add: image_canvas_fields resolves_def example_resolver_def reloaded_def js_or_def)
qed

lemma dragged_canvas_fields:
  "r_images (rendered dragged_canvas) = images dragged_canvas"
  "r_texts (rendered dragged_canvas) = []"
  "container dragged_canvas = (0, 0)"
  "map (image_view dragged_canvas) (images dragged_canvas) = [(''1'', ''a.png'', Some (1004 / 10, 100, 1))]"
  "canvasData_of (images dragged_canvas) [] dragged_canvas = Inr dragged_document"
  by (simp_all add: dragged_canvas_def rerender_def movedListener_def update_node_def
      image_canvas_fields onDragEnd_def onDragMove_def onDragStart_def pointer_simps
      example_node_simps debouncedAutoSaveRef_def debouncedAutoSave_def Let_def image_view_def
      canvasData_of_def save_image_def getScale_def js_or_def dragged_document_def)

text \<open>
  C3 as stated fails for an image whose position is not an integer: dragged by 0.4 pixels
  to (100.4, 100), the image is saved at 100.4 and loaded at 100, which is 0.4 away.
\<close>

theorem roundtrip_rounds_position:
  "canvasData_of (r_images (rendered dragged_canvas)) (r_texts (rendered dragged_canvas)) dragged_canvas =
     Inr dragged_document
   \<and> map (image_view dragged_canvas) (images dragged_canvas) = [(''1'', ''a.png'', Some (1004 / 10, 100, 1))]
   \<and> map (image_view (fst (loadCanvasData example_resolver dragged_document initial_canvas)))
         (images (fst (loadCanvasData example_resolver dragged_document initial_canvas))) =
       [(''1'', ''a.png'', Some (100, 100, 1))]
   \<and> map (image_view (loadFromAPI [] example_resolver (Json dragged_document) initial_canvas))
         (images (loadFromAPI [] example_resolver (Json dragged_document) initial_canvas)) =
       [(''1'', ''a.png'', Some (100, 100, 1))]
   \<and> 1 / 1000000 < \<bar>(1004 / 10 :: real) - 100\<bar>"
proof -
  have stored: "cd_images dragged_document =
      Some [\<lparr> s_id = ''1'', s_imageUrl = ''a.png'', s_x = 1004 / 10, s_y = 100, s_scale = 1 \<rparr>]"
    by (simp add: dragged_document_def)
  have views: "map stored_view (filter (resolvable example_resolver)
      [\<lparr> s_id = ''1'', s_imageUrl = ''a.png'', s_x = 1004 / 10, s_y = 100, s_scale = 1 \<rparr>]) =
      [(''1'', ''a.png'', Some (100, 100, 1))]"
    by (simp add: resolvable_def resolves_def example_resolver_def stored_view_def Math_round_def)
  show ?thesis
    using images_loadCanvasData(2) [OF stored, of example_resolver initial_canvas]
      images_loadFromAPI(1) [OF stored, of "[]" example_resolver initial_canvas]
    unfolding views by (simp add: dragged_canvas_fields)
qed

section \<open>The two load paths\<close>

lemma text_canvas_fields:
  "texts text_canvas = [example_text]"
  "r_texts (rendered text_canvas) = [example_text]" "r_images (rendered text_canvas) = []"
  "images text_canvas = []" "next_ref text_canvas = 1"
  "textNodes text_canvas 0 = Some \<lparr> t_id = ''2'', t_x = 10, t_y = 20, t_text = Some 1,
      t_frame_visible = False, t_dragging = False, t_dragPointerId = None, t_dragOffset = (0, 0),
      t_resizing = False, t_resizePointerId = None, t_startProj = 0,
      t_startScale = 1, t_has_parent = True \<rparr>"
  by (simp_all add: text_canvas_def textReady_def rerender_def createTextElement_def
      initial_canvas_def update_textNode_def example_text_def new_DraggableResizableText_def
      fontLoaded_def redrawFrame_text_def debouncedAutoSaveRef_def debouncedAutoSave_def Let_def)

text \<open>
  C4 at a failing input. A document with one text entry whose scale is 0 (or absent):
  imported from a file it yields one live text object, loaded from the persistence
  collaborator it yields none. And on a canvas that holds a text object, importing the
  empty document removes the text while loading it from the collaborator keeps it.
\<close>

theorem load_paths_differ_on_texts:
  "map txt_id (texts (fst (importFromJSON example_resolver (Parsed text_document) initial_canvas))) = [''t1'']
   \<and> snd (importFromJSON example_resolver (Parsed text_document) initial_canvas) = False
   \<and> texts (loadFromAPI [] example_resolver (Json text_document) initial_canvas) = []
   \<and> texts (fst (importFromJSON example_resolver (Parsed empty_document) text_canvas)) = []
   \<and> map txt_id (texts (loadFromAPI [] example_resolver (Json empty_document) text_canvas)) = [''2'']"
  by (simp add: importFromJSON_def loadCanvasData_def loadFromAPI_def text_document_def
      empty_document_def loadCanvasData_text_def new_DraggableResizableText_def initial_canvas_def
      text_canvas_fields example_text_def destroy_all_def Let_def)

section \<open>Selection\<close>

lemma imageClick_keeps_selectedText:
  "selectedText (imageClick cap ident a url st) = selectedText st
   \<and> textNodes (imageClick cap ident a url st) = textNodes st"
  by (simp add: imageClick_def update_node_def Let_def split: option.splits)

text \<open>
  C1 at a failing input. A text object is selected; a click on an image then selects the
  image without deselecting the text: both selection references are set, both selection
  frames are visible, and two objects are selected at once.
\<close>

theorem image_click_leaves_text_selected:
  "selected_count text_selected_beside_image = 1
   \<and> selectedText both_selected_canvas = Some example_text
   \<and> map_option img_id (selectedImage both_selected_canvas) = Some ''1''
   \<and> map_option t_frame_visible (textNodes both_selected_canvas 0) = Some True
   \<and> map_option frame_visible (nodes both_selected_canvas 1) = Some True
   \<and> selected_count both_selected_canvas = 2"
  by (simp add: selected_count_def both_selected_canvas_def text_selected_beside_image_def
      text_canvas_def textReady_def createTextElement_def initial_canvas_def rerender_def
      imageClick_def textClick_def createSpriteFromTexture_def update_node_def update_textNode_def
      showSelection_def showSelection_text_def hideSelection_def example_text_def
      example_texture_def new_DraggableResizable_def new_DraggableResizableText_def fontLoaded_def
      redrawFrame_text_def getScale_def Math_round_def debouncedAutoSaveRef_def
      debouncedAutoSave_def Let_def)

section \<open>The resize gesture\<close>

lemma pointerDistance_sprite_scale [simp]:
  "pointerDistance c e (n\<lparr> sprite_scale := s \<rparr>) = pointerDistance c e n"
  by (simp add: pointerDistance_def)

lemma resizeMoves_matching:
  assumes "resizing m" and "resizePointerId m = Some i" and "has_parent m"
      and "\<forall>e \<in> set es. pointerId e = i"
  shows "resizeMoves c es m =
           (if es = [] then m
            else m\<lparr> sprite_scale := min (snd (getScaleConstraints m))
                      (max (fst (getScaleConstraints m))
                         (startScale m * (pointerDistance c (last es) m / startProj m))) \<rparr>)"
  using assms(4)
proof (induction es rule: rev_induct)
  case Nil
  then show ?case by (simp add: resizeMoves_def)
next
  case (snoc e es)
  have step: "resizeMoves c (es @ [e]) m = onResizeMove c e (resizeMoves c es m)"
    by (simp add: resizeMoves_def)
  show ?case
    using snoc assms(1-3) unfolding step by (simp add: onResizeMove_applied)
qed

lemma onResizeMove_keeps:
  "resizing (onResizeMove c e m) = resizing m"
  "resizePointerId (onResizeMove c e m) = resizePointerId m"
  "has_parent (onResizeMove c e m) = has_parent m"
  by (simp_all add: onResizeMove_def Let_def case_prod_beta)

lemma onResizeMove_other:
  assumes "resizePointerId m = Some i" and "pointerId e \<noteq> i"
  shows "onResizeMove c e m = m"
  using assms by (simp add: onResizeMove_def)

lemma resizeMoves_filter:
  assumes "resizePointerId m = Some i"
  shows "resizeMoves c es m = resizeMoves c (filter (\<lambda>e. pointerId e = i) es) m"
  using assms
proof (induction es arbitrary: m)
  case Nil
  then show ?case by simp
next
  case (Cons e es)
  have step: "resizeMoves c (x # xs) k = resizeMoves c xs (onResizeMove c x k)" for x xs k
    by (simp add: resizeMoves_def)
  show ?case
  proof (cases "pointerId e = i")
    case True
    have "resizePointerId (onResizeMove c e m) = Some i"
      using Cons.prems by (simp add: onResizeMove_keeps)
    then show ?thesis
      using Cons.IH [of "onResizeMove c e m"] True by (simp add: step)
  next
    case False
    then show ?thesis
      using Cons.IH [OF Cons.prems] onResizeMove_other [OF Cons.prems False] by (simp add: step)
  qed
qed

lemma text_local_distance:
  "sqrt ((fst (toLocal c (global e)) - t_x t) * (fst (toLocal c (global e)) - t_x t)
       + (snd (toLocal c (global e)) - t_y t) * (snd (toLocal c (global e)) - t_y t))
   = pointerDistance_text c e t"
proof -
  have "fst (toLocal c (global e)) - t_x t = fst (global e) - fst (toGlobal c (t_x t, t_y t))"
    and "snd (toLocal c (global e)) - t_y t = snd (global e) - snd (toGlobal c (t_x t, t_y t))"
    by (simp_all add: toLocal_def toGlobal_def)
  then show ?thesis
    by (simp only: pointerDistance_text_def Math_hypot_def)
qed

lemma clamp_text: "max (1 / 10) (min 5 v) = clamp v (1 / 10) 5"
  by (simp add: clamp_def max_def min_def)

lemma onResizeMove_text_matching:
  assumes "t_resizing t" and "t_resizePointerId t = Some (pointerId e)" and "t_has_parent t"
      and "t_text t = Some s0"
  shows "onResizeMove_text c e t =
           Inr (t\<lparr> t_text := Some (clamp (t_startScale t * (pointerDistance_text c e t / t_startProj t))
                                       (1 / 10) 5),
                   t_frame_visible := False \<rparr>)"
  unfolding onResizeMove_text_def Let_def text_local_distance clamp_text
  using assms by (simp add: setScale_text_def redrawFrame_text_def)

lemma onResizeMove_text_other:
  assumes "t_resizePointerId t = Some i" and "pointerId e \<noteq> i"
  shows "onResizeMove_text c e t = Inr t"
  using assms by (auto simp: onResizeMove_text_def)

lemma pointerDistance_text_update [simp]:
  "pointerDistance_text c e (t\<lparr> t_text := a, t_frame_visible := b \<rparr>) = pointerDistance_text c e t"
  by (simp add: pointerDistance_text_def)

lemma pointerDistance_text_started [simp]:
  "pointerDistance_text c e (t\<lparr> t_resizing := a, t_resizePointerId := b, t_startProj := p,
       t_startScale := q \<rparr>) = pointerDistance_text c e t"
  by (simp add: pointerDistance_text_def)

lemma resizeMoves_text_result:
  assumes "t_resizing t" and "t_resizePointerId t = Some i" and "t_has_parent t"
      and "t_text t = Some s0"
  shows "resizeMoves_text c es (Inr t) =
           (if filter (\<lambda>e. pointerId e = i) es = [] then Inr t
            else Inr (t\<lparr> t_text := Some (clamp (t_startScale t *
                              (pointerDistance_text c (last (filter (\<lambda>e. pointerId e = i) es)) t
                                 / t_startProj t)) (1 / 10) 5),
                          t_frame_visible := False \<rparr>))"
proof (induction es rule: rev_induct)
  case Nil
  then show ?case by (simp add: resizeMoves_text_def)
next
  case (snoc e es)
  have step: "resizeMoves_text c (es @ [e]) (Inr t) =
      then_text (resizeMoves_text c es (Inr t)) (onResizeMove_text c e)"
    by (simp add: resizeMoves_text_def)
  show ?case
  proof (cases "pointerId e = i")
    case True
    show ?thesis
      unfolding step snoc.IH using True assms
      by (simp add: then_text_def onResizeMove_text_matching)
  next
    case False
    show ?thesis
      unfolding step snoc.IH using False assms
      by (simp add: then_text_def onResizeMove_text_other)
  qed
qed

lemma onResizeStart_text_started:
  assumes "t_has_parent t" and "t_text t = Some s0"
  shows "onResizeStart_text c e0 t =
           Inr (t\<lparr> t_resizing := True, t_resizePointerId := Some (pointerId e0),
                   t_startProj := pointerDistance_text c e0 t, t_startScale := s0 \<rparr>)"
  unfolding onResizeStart_text_def Let_def
  using assms text_local_distance [of c e0 t] by simp

text \<open>
  C7, amended. During a resize gesture (the handle is pressed with event \<open>e0\<close>, then the
  pointer-moves \<open>es\<close> arrive, of which those with another pointer identifier are
  ignored), the scale after the last move with the matching identifier is the scale at
  gesture start times the ratio of the current to the starting pointer-to-centre
  distance, both measured in global space, clamped to \<open>[minScale, maxScale]\<close> for an
  image node and to \<open>[0.1, 5]\<close> for a text node. The starting distance is taken non-zero,
  where real and floating-point division agree, and the texture has positive dimensions.
\<close>

theorem resize_moves_scale:
  assumes "has_parent n" and "positive_texture n" and "pointerDistance c e0 n \<noteq> 0"
      and "filter (\<lambda>e. pointerId e = pointerId e0) es \<noteq> []"
      and "t_has_parent t" and "t_text t = Some s0" and "pointerDistance_text c e0 t \<noteq> 0"
  shows "sprite_scale (resizeMoves c es (onResizeStart c e0 n)) =
           clamp (sprite_scale n *
                    (pointerDistance c (last (filter (\<lambda>e. pointerId e = pointerId e0) es)) n
                       / pointerDistance c e0 n))
                 (fst (getScaleConstraints n)) (snd (getScaleConstraints n))
       \<and> map_sum id t_text (then_text (onResizeStart_text c e0 t) (\<lambda>t1. resizeMoves_text c es (Inr t1))) =
           Inr (Some (clamp (s0 *
                    (pointerDistance_text c (last (filter (\<lambda>e. pointerId e = pointerId e0) es)) t
                       / pointerDistance_text c e0 t))
                 (1 / 10) 5))"
proof
  let ?ms = "filter (\<lambda>e. pointerId e = pointerId e0) es"
  let ?m = "onResizeStart c e0 n"
  have started: "resizing ?m" "resizePointerId ?m = Some (pointerId e0)" "has_parent ?m"
    using assms(1) by (simp_all add: onResizeStart_def Let_def)
  have "resizeMoves c es ?m = resizeMoves c ?ms ?m"
    using resizeMoves_filter [OF started(2)] .
  also have "\<dots> = ?m\<lparr> sprite_scale := min (snd (getScaleConstraints ?m))
                      (max (fst (getScaleConstraints ?m))
                         (startScale ?m * (pointerDistance c (last ?ms) ?m / startProj ?m))) \<rparr>"
    using resizeMoves_matching [OF started, of ?ms c] assms(4) by simp
  finally show "sprite_scale (resizeMoves c es ?m) =
      clamp (sprite_scale n * (pointerDistance c (last ?ms) n / pointerDistance c e0 n))
        (fst (getScaleConstraints n)) (snd (getScaleConstraints n))"
    using assms(1)
    by (simp add: onResizeStart_def pointerDistance_def clamp_def getScaleConstraints_def Let_def)
next
  let ?t1 = "t\<lparr> t_resizing := True, t_resizePointerId := Some (pointerId e0),
                t_startProj := pointerDistance_text c e0 t, t_startScale := s0 \<rparr>"
  have "resizeMoves_text c es (Inr ?t1) =
      Inr (?t1\<lparr> t_text := Some (clamp (t_startScale ?t1 *
              (pointerDistance_text c (last (filter (\<lambda>e. pointerId e = pointerId e0) es)) ?t1
                 / t_startProj ?t1)) (1 / 10) 5),
            t_frame_visible := False \<rparr>)"
    using resizeMoves_text_result [of ?t1 "pointerId e0" s0 c es] assms(4-6) by simp
  then show "map_sum id t_text (then_text (onResizeStart_text c e0 t) (\<lambda>t1. resizeMoves_text c es (Inr t1))) =
      Inr (Some (clamp (s0 *
          (pointerDistance_text c (last (filter (\<lambda>e. pointerId e = pointerId e0) es)) t
             / pointerDistance_text c e0 t)) (1 / 10) 5))"
    using onResizeStart_text_started [OF assms(5,6), of c e0]
    by (simp add: then_text_def pointerDistance_text_def)
qed

lemma example_text_node_simps:
  "t_has_parent example_text_node" "t_text example_text_node = Some 1"
  "t_x example_text_node = 100" "t_y example_text_node = 100"
  "t_resizing example_text_node = False" "t_resizePointerId example_text_node = None"
  "t_frame_visible example_text_node = False"
  by (simp_all add: example_text_node_def fontLoaded_def redrawFrame_text_def
      new_DraggableResizableText_def)

lemma example_text_distances:
  "pointerDistance_text (7, 9) (pointer 1 137 149) example_text_node = 50"
  "pointerDistance_text (7, 9) (pointer 1 167 189) example_text_node = 100"
  "pointerDistance_text (7, 9) (pointer 1 287 349) example_text_node = 300"
  "pointerDistance_text (0, 0) (pointer 1 130 140) example_text_node = 50"
  "pointerDistance_text (0, 0) (pointer 1 160 180) example_text_node = 100"
  using Math_hypot_3_4 [of 10] Math_hypot_3_4 [of 20] Math_hypot_3_4 [of 60]
  by (simp_all add: pointerDistance_text_def pointer_simps toGlobal_def example_text_node_simps)

lemma example_moves_filter:
  "filter (\<lambda>e. pointerId e = pointerId (pointer 1 137 149))
     [pointer 2 500 500, pointer 1 150 160, pointer 1 167 189, pointer 3 0 0] =
   [pointer 1 150 160, pointer 1 167 189]"
  by (simp add: pointer_simps)

text \<open>
  The scenario of C7 on an image node and on a text node, both at (100, 100) with scale 1
  and the container panned to (7, 9): the gesture starts at distance 50 and the last
  matching move is at distance 100, among moves of other pointers; the scale becomes 2.
\<close>

theorem resize_moves_scale_witness:
  "has_parent example_node \<and> positive_texture example_node
   \<and> pointerDistance (7, 9) (pointer 1 137 149) example_node = 50
   \<and> filter (\<lambda>e. pointerId e = pointerId (pointer 1 137 149))
        [pointer 2 500 500, pointer 1 150 160, pointer 1 167 189, pointer 3 0 0] =
      [pointer 1 150 160, pointer 1 167 189]
   \<and> t_has_parent example_text_node \<and> t_text example_text_node = Some 1
   \<and> pointerDistance_text (7, 9) (pointer 1 137 149) example_text_node = 50
   \<and> sprite_scale (resizeMoves (7, 9) [pointer 2 500 500, pointer 1 150 160, pointer 1 167 189, pointer 3 0 0]
         (onResizeStart (7, 9) (pointer 1 137 149) example_node)) = 2
   \<and> map_sum id t_text
        (then_text (onResizeStart_text (7, 9) (pointer 1 137 149) example_text_node)
           (\<lambda>t1. resizeMoves_text (7, 9)
                    [pointer 2 500 500, pointer 1 150 160, pointer 1 167 189, pointer 3 0 0] (Inr t1))) =
      Inr (Some 2)"
  using resize_moves_scale [of example_node "(7, 9)" "pointer 1 137 149"
      "[pointer 2 500 500, pointer 1 150 160, pointer 1 167 189, pointer 3 0 0]" example_text_node 1,
      unfolded example_moves_filter]
  by (simp add: example_moves_filter example_node_simps example_distances example_text_node_simps
      example_text_distances clamp_def del: filter.simps)

text \<open>
  C7 as stated fails on a text object: from distance 50 at scale 1 a move to distance 300
  gives scale 5, the ceiling of the text class, where the claimed clamp to
  \<open>[minScale, 8]\<close> gives 6.
\<close>

theorem text_resize_stops_at_five:
  "t_text example_text_node = Some 1
   \<and> pointerDistance_text (7, 9) (pointer 1 137 149) example_text_node = 50
   \<and> pointerDistance_text (7, 9) (pointer 1 287 349) example_text_node = 300
   \<and> map_sum id t_text
        (then_text (onResizeStart_text (7, 9) (pointer 1 137 149) example_text_node)
           (\<lambda>t1. resizeMoves_text (7, 9) [pointer 1 287 349] (Inr t1))) = Inr (Some 5)
   \<and> clamp (1 * (300 / 50)) (1 / 20) 8 = (6::real)"
proof -
  let ?t1 = "example_text_node\<lparr> t_resizing := True, t_resizePointerId := Some (pointerId (pointer 1 137 149)),
      t_startProj := pointerDistance_text (7, 9) (pointer 1 137 149) example_text_node, t_startScale := 1 \<rparr>"
  have start: "onResizeStart_text (7, 9) (pointer 1 137 149) example_text_node = Inr ?t1"
    using onResizeStart_text_started [of example_text_node 1 "(7, 9)" "pointer 1 137 149"]
    by (simp add: example_text_node_simps)
  have "resizeMoves_text (7, 9) [pointer 1 287 349] (Inr ?t1) =
      Inr (?t1\<lparr> t_text := Some 5, t_frame_visible := False \<rparr>)"
    using resizeMoves_text_result [of ?t1 1 1 "(7, 9)" "[pointer 1 287 349]"]
    by (simp add: example_text_node_simps example_text_distances pointer_simps clamp_def)
  then show ?thesis
    by (simp add: start then_text_def example_text_node_simps example_text_distances clamp_def)
qed

section \<open>The drag gesture of the text class\<close>

lemma scaled_text_node_simps:
  "t_x scaled_text_node = 100" "t_y scaled_text_node = 100" "t_text scaled_text_node = Some 2"
  "t_has_parent scaled_text_node"
  by (simp_all add: scaled_text_node_def example_text_node_simps)

text \<open>
  C8 at a failing input. A text object at world position (100, 100) has been resized to
  scale 2. It is grabbed with the pointer at (150, 160): the captured offset is
  (25, 30), the pointer's offset divided by the text scale. Moving the pointer to
  (250, 260) puts the text at (225, 230), not at (200, 200).
\<close>

theorem text_drag_offset_is_scaled:
  "then_text (then_text (onResizeStart_text (0, 0) (pointer 1 130 140) example_text_node)
                (onResizeMove_text (0, 0) (pointer 1 160 180)))
      (onResizeEnd_text (pointer 1 160 180)) = Inr (scaled_text_node, Some 2)
   \<and> t_x scaled_text_node = 100 \<and> t_y scaled_text_node = 100 \<and> t_text scaled_text_node = Some 2
   \<and> map_sum id t_dragOffset (onDragStart_text (0, 0) (pointer 1 150 160) scaled_text_node) = Inr (25, 30)
   \<and> map_sum id (\<lambda>n. (t_x n, t_y n))
        (then_text (onDragStart_text (0, 0) (pointer 1 150 160) scaled_text_node)
           (\<lambda>n. Inr (onDragMove_text (0, 0) (pointer 1 250 260) n))) = Inr (225, 230)"
proof -
  let ?t1 = "example_text_node\<lparr> t_resizing := True, t_resizePointerId := Some 1,
      t_startProj := 50, t_startScale := 1 \<rparr>"
  have start: "onResizeStart_text (0, 0) (pointer 1 130 140) example_text_node = Inr ?t1"
    using onResizeStart_text_started [of example_text_node 1 "(0, 0)" "pointer 1 130 140"]
    by (simp add: example_text_node_simps example_text_distances pointer_simps)
  have move: "onResizeMove_text (0, 0) (pointer 1 160 180) ?t1 =
      Inr (?t1\<lparr> t_text := Some 2, t_frame_visible := False \<rparr>)"
    using onResizeMove_text_matching [of ?t1 "pointer 1 160 180" 1 "(0, 0)"]
    by (simp add: example_text_node_simps example_text_distances pointer_simps clamp_def)
  have gesture: "then_text (then_text (onResizeStart_text (0, 0) (pointer 1 130 140) example_text_node)
                (onResizeMove_text (0, 0) (pointer 1 160 180)))
      (onResizeEnd_text (pointer 1 160 180)) = Inr (scaled_text_node, Some 2)"
    unfolding start then_text_def sum.case move
    by (simp add: onResizeEnd_text_def getScale_text_def pointer_simps scaled_text_node_def
        example_text_node_def fontLoaded_def redrawFrame_text_def new_DraggableResizableText_def)
  have drag: "map_sum id t_dragOffset (onDragStart_text (0, 0) (pointer 1 150 160) scaled_text_node) = Inr (25, 30)"
    "map_sum id (\<lambda>n. (t_x n, t_y n))
        (then_text (onDragStart_text (0, 0) (pointer 1 150 160) scaled_text_node)
           (\<lambda>n. Inr (onDragMove_text (0, 0) (pointer 1 250 260) n))) = Inr (225, 230)"
    by (simp_all add: onDragStart_text_def onDragMove_text_def text_toLocal_def then_text_def
        toLocal_def pointer_simps scaled_text_node_simps Let_def)
  show ?thesis
    using gesture drag by (simp add: scaled_text_node_simps)
qed

end
